theory Spec2Isabelle
  imports Complex_Main
begin

section \<open>Python values and exceptions\<close>

text \<open>
  The library is dynamically typed: the decorators of \<^verbatim>\<open>decorators.py\<close> receive
  arbitrary positional and keyword arguments and dispatch on their runtime class. The
  model therefore has one type of runtime values. Enumeration members keep their own
  constructors, because \<^verbatim>\<open>isinstance\<close> tells them apart from plain integers.
\<close>

text \<open>
  \<^verbatim>\<open>currencies.py\<close>: the two integer enumerations. \<^verbatim>\<open>decorators.py\<close> imports them under
  the names \<^verbatim>\<open>Currency\<close> and \<^verbatim>\<open>LegacyCurrency\<close>. The members of the legacy enumeration
  carry the prefix \<open>Legacy_\<close>, since a constructor name belongs to one datatype only.
\<close>

datatype SteamCurrency =
    USD | GBP | EUR | CHF | RUB | PLN | BRL | JPY | NOK | IDR | MYR | PHP | SGD | THB
  | VND | KRW | TRY | UAH | MXN | CAD | AUD | NZD | CNY | INR | CLP | PEN | COP | ZAR
  | HKD | TWD | SAR | AED | SEK | ARS | ILS | BYN | KZT | KWD | QAR | CRC | UYU | BGN
  | HRK | CZK | DKK | HUF | RON

datatype SteamLegacyCurrency =
    Legacy_SEK | Legacy_BYN | Legacy_BGN | Legacy_HRK | Legacy_CZK | Legacy_DKK
  | Legacy_HUF | Legacy_RON

datatype pyval =
    PNone
  | PBool bool
  | PInt int
  | PFloat rat
  | PFloatInf
  | PStr string
  | PCurrency SteamCurrency
  | PLegacyCurrency SteamLegacyCurrency
  | PAppID int
  | PLanguage string
  | PList "pyval list"
  | PTuple "pyval list"
  | PDict "(pyval \<times> pyval) list"

text \<open>
  A float is a binary64 number: \<open>PFloat x\<close> is the finite one whose value is the
  rational \<open>x\<close>, \<open>PFloatInf\<close> is \<^verbatim>\<open>inf\<close>. The library builds floats from strings of
  digits only, so no negative infinity and no \<^verbatim>\<open>nan\<close> arises.
  \<open>PAppID\<close> and \<open>PLanguage\<close> are members of the enumerations of \<^verbatim>\<open>enums.py\<close>, which is
  not among the sources: an \<^verbatim>\<open>AppID\<close> member is carried by its integer value, a
  \<^verbatim>\<open>Language\<close> member by its name. A dictionary is the list of its items in insertion
  order.
\<close>

datatype error =
    LegacyCurrencyException pyval
  | InvalidCurrencyException pyval
  | InvalidLanguageException pyval
  | InvalidItemOrAppIDException
  | TooManyRequestsException
  | TypeError
  | ValueError
  | KeyError
  | IndexError
  | AttributeError
  | OverflowError

datatype pyclass =
    C_int | C_str | C_bool | C_float | C_NoneType | C_list | C_tuple | C_dict
  | C_Currency | C_LegacyCurrency | C_AppID | C_Language

text \<open>
  \<^verbatim>\<open>isinstance(value, cls)\<close>. \<^verbatim>\<open>bool\<close> is a subclass of \<^verbatim>\<open>int\<close>, and the members of an
  \<^verbatim>\<open>IntEnum\<close> are instances of \<^verbatim>\<open>int\<close>.
\<close>

fun isinstance :: "pyval \<Rightarrow> pyclass \<Rightarrow> bool" where
  "isinstance PNone c = (c = C_NoneType)"
| "isinstance (PBool b) c = (c = C_bool \<or> c = C_int)"
| "isinstance (PInt n) c = (c = C_int)"
| "isinstance (PFloat x) c = (c = C_float)"
| "isinstance PFloatInf c = (c = C_float)"
| "isinstance (PStr s) c = (c = C_str)"
| "isinstance (PCurrency m) c = (c = C_Currency \<or> c = C_int)"
| "isinstance (PLegacyCurrency m) c = (c = C_LegacyCurrency \<or> c = C_int)"
| "isinstance (PAppID n) c = (c = C_AppID \<or> c = C_int)"
| "isinstance (PLanguage s) c = (c = C_Language)"
| "isinstance (PList xs) c = (c = C_list)"
| "isinstance (PTuple xs) c = (c = C_tuple)"
| "isinstance (PDict kvs) c = (c = C_dict)"

section \<open>The currency tables (currencies.py)\<close>

fun SteamCurrency_value :: "SteamCurrency \<Rightarrow> int" where
  "SteamCurrency_value USD = 1"
| "SteamCurrency_value GBP = 2"
| "SteamCurrency_value EUR = 3"
| "SteamCurrency_value CHF = 4"
| "SteamCurrency_value RUB = 5"
| "SteamCurrency_value PLN = 6"
| "SteamCurrency_value BRL = 7"
| "SteamCurrency_value JPY = 8"
| "SteamCurrency_value NOK = 9"
| "SteamCurrency_value IDR = 10"
| "SteamCurrency_value MYR = 11"
| "SteamCurrency_value PHP = 12"
| "SteamCurrency_value SGD = 13"
| "SteamCurrency_value THB = 14"
| "SteamCurrency_value VND = 15"
| "SteamCurrency_value KRW = 16"
| "SteamCurrency_value TRY = 17"
| "SteamCurrency_value UAH = 18"
| "SteamCurrency_value MXN = 19"
| "SteamCurrency_value CAD = 20"
| "SteamCurrency_value AUD = 21"
| "SteamCurrency_value NZD = 22"
| "SteamCurrency_value CNY = 23"
| "SteamCurrency_value INR = 24"
| "SteamCurrency_value CLP = 25"
| "SteamCurrency_value PEN = 26"
| "SteamCurrency_value COP = 27"
| "SteamCurrency_value ZAR = 28"
| "SteamCurrency_value HKD = 29"
| "SteamCurrency_value TWD = 30"
| "SteamCurrency_value SAR = 31"
| "SteamCurrency_value AED = 32"
| "SteamCurrency_value SEK = 33"
| "SteamCurrency_value ARS = 34"
| "SteamCurrency_value ILS = 35"
| "SteamCurrency_value BYN = 36"
| "SteamCurrency_value KZT = 37"
| "SteamCurrency_value KWD = 38"
| "SteamCurrency_value QAR = 39"
| "SteamCurrency_value CRC = 40"
| "SteamCurrency_value UYU = 41"
| "SteamCurrency_value BGN = 42"
| "SteamCurrency_value HRK = 43"
| "SteamCurrency_value CZK = 44"
| "SteamCurrency_value DKK = 45"
| "SteamCurrency_value HUF = 46"
| "SteamCurrency_value RON = 47"

fun SteamLegacyCurrency_value :: "SteamLegacyCurrency \<Rightarrow> int" where
  "SteamLegacyCurrency_value Legacy_SEK = 33"
| "SteamLegacyCurrency_value Legacy_BYN = 36"
| "SteamLegacyCurrency_value Legacy_BGN = 42"
| "SteamLegacyCurrency_value Legacy_HRK = 43"
| "SteamLegacyCurrency_value Legacy_CZK = 44"
| "SteamLegacyCurrency_value Legacy_DKK = 45"
| "SteamLegacyCurrency_value Legacy_HUF = 46"
| "SteamLegacyCurrency_value Legacy_RON = 47"

text \<open>The member names, in declaration order (the \<^verbatim>\<open>__members__\<close> mapping of each class).\<close>

definition SteamCurrency_members :: "(string \<times> SteamCurrency) list" where
  "SteamCurrency_members =
    [(''USD'', USD), (''GBP'', GBP), (''EUR'', EUR), (''CHF'', CHF), (''RUB'', RUB),
     (''PLN'', PLN), (''BRL'', BRL), (''JPY'', JPY), (''NOK'', NOK), (''IDR'', IDR),
     (''MYR'', MYR), (''PHP'', PHP), (''SGD'', SGD), (''THB'', THB), (''VND'', VND),
     (''KRW'', KRW), (''TRY'', TRY), (''UAH'', UAH), (''MXN'', MXN), (''CAD'', CAD),
     (''AUD'', AUD), (''NZD'', NZD), (''CNY'', CNY), (''INR'', INR), (''CLP'', CLP),
     (''PEN'', PEN), (''COP'', COP), (''ZAR'', ZAR), (''HKD'', HKD), (''TWD'', TWD),
     (''SAR'', SAR), (''AED'', AED), (''SEK'', SEK), (''ARS'', ARS), (''ILS'', ILS),
     (''BYN'', BYN), (''KZT'', KZT), (''KWD'', KWD), (''QAR'', QAR), (''CRC'', CRC),
     (''UYU'', UYU), (''BGN'', BGN), (''HRK'', HRK), (''CZK'', CZK), (''DKK'', DKK),
     (''HUF'', HUF), (''RON'', RON)]"

definition SteamLegacyCurrency_members :: "(string \<times> SteamLegacyCurrency) list" where
  "SteamLegacyCurrency_members =
    [(''SEK'', Legacy_SEK), (''BYN'', Legacy_BYN), (''BGN'', Legacy_BGN),
     (''HRK'', Legacy_HRK), (''CZK'', Legacy_CZK), (''DKK'', Legacy_DKK),
     (''HUF'', Legacy_HUF), (''RON'', Legacy_RON)]"

text \<open>The member of the currency enumeration that has a given value, if there is one.\<close>

definition Currency_of_value :: "int \<Rightarrow> SteamCurrency option" where
  "Currency_of_value n =
     map_option snd (find (\<lambda>(name, m). SteamCurrency_value m = n) SteamCurrency_members)"

text \<open>
  \<^verbatim>\<open>Currency(value)\<close>, the call of the enumeration class: the member with that value.
  The class is an \<^verbatim>\<open>IntEnum\<close>, and calling an enumeration with a value that no member has
  raises \<^verbatim>\<open>ValueError\<close>.
\<close>

definition Currency_call :: "int \<Rightarrow> error + SteamCurrency" where
  "Currency_call n = (case Currency_of_value n of None \<Rightarrow> Inl ValueError | Some m \<Rightarrow> Inr m)"

text \<open>
  \<^verbatim>\<open>value in LegacyCurrency\<close> for an integer: membership by value, which is what Python
  defines for \<^verbatim>\<open>in\<close> on an enumeration class from version 3.12 on (the versions 3.8 to
  3.11 raise \<^verbatim>\<open>TypeError\<close> for an operand that is no enumeration member).
\<close>

definition in_LegacyCurrency :: "int \<Rightarrow> bool" where
  "in_LegacyCurrency n =
     (n \<in> set (map (\<lambda>(name, m). SteamLegacyCurrency_value m) SteamLegacyCurrency_members))"

definition ascii_upper :: "char \<Rightarrow> char" where
  "ascii_upper c =
     (case map_of (zip ''abcdefghijklmnopqrstuvwxyz'' ''ABCDEFGHIJKLMNOPQRSTUVWXYZ'') c of
        None \<Rightarrow> c
      | Some u \<Rightarrow> u)"

text \<open>
  Modelled from the spec: the class method \<^verbatim>\<open>from_string\<close> of \<^verbatim>\<open>Currency\<close> and of
  \<^verbatim>\<open>LegacyCurrency\<close>, which \<^verbatim>\<open>currencies.py\<close> does not define. The spec describes it as
  \<^verbatim>\<open>lookup_by_name(name) -> Value | not found\<close>, a case-insensitive exact match on the
  member names.
\<close>

definition Currency_from_string :: "string \<Rightarrow> SteamCurrency option" where
  "Currency_from_string s = map_of SteamCurrency_members (map ascii_upper s)"

definition LegacyCurrency_from_string :: "string \<Rightarrow> SteamLegacyCurrency option" where
  "LegacyCurrency_from_string s = map_of SteamLegacyCurrency_members (map ascii_upper s)"

section \<open>Conversions and string operations of the Python library\<close>

definition is_digit :: "char \<Rightarrow> bool" where
  "is_digit c = (c \<in> set ''0123456789'')"

definition digit_val :: "char \<Rightarrow> nat" where
  "digit_val c = (case map_of (zip ''0123456789'' [0, 1, 2, 3, 4, 5, 6, 7, 8, 9]) c of
                    None \<Rightarrow> 0
                  | Some d \<Rightarrow> d)"

definition nat_of_digits :: "string \<Rightarrow> nat" where
  "nat_of_digits s = foldl (\<lambda>a c. 10 * a + digit_val c) 0 s"

text \<open>
  \<^verbatim>\<open>s.replace(old, new)\<close> for a pattern \<open>old\<close> of one character, the only way the
  library calls it (\<^verbatim>\<open>"/"\<close>, \<^verbatim>\<open>","\<close> and \<^verbatim>\<open>"."\<close>).
\<close>

definition str_replace :: "char \<Rightarrow> string \<Rightarrow> string \<Rightarrow> string" where
  "str_replace old new s = concat (map (\<lambda>c. if c = old then new else [c]) s)"

definition is_space :: "char \<Rightarrow> bool" where
  "is_space c = (c \<in> set [CHR '' '', CHR 0x09, CHR 0x0A, CHR 0x0B, CHR 0x0C, CHR 0x0D])"

definition str_strip :: "string \<Rightarrow> string" where
  "str_strip s = rev (dropWhile is_space (rev (dropWhile is_space s)))"

text \<open>
  The digits of an integer literal: single underscores may stand between digits.
\<close>

fun literal_digits :: "string \<Rightarrow> string option" where
  "literal_digits [] = None"
| "literal_digits [c] = (if is_digit c then Some [c] else None)"
| "literal_digits (c # d # cs) =
     (if \<not> is_digit c then None
      else if d = CHR ''_'' then map_option (Cons c) (literal_digits cs)
      else map_option (Cons c) (literal_digits (d # cs)))"

text \<open>
  \<^verbatim>\<open>int(s)\<close> for a string in base ten: surrounding whitespace, an optional sign, then
  the digits. Anything else is a \<^verbatim>\<open>ValueError\<close>. Only ASCII digits and whitespace are
  modelled (a \<open>char\<close> is a byte).
\<close>

definition int_of_str :: "string \<Rightarrow> error + int" where
  "int_of_str s =
     (let t = str_strip s;
          (neg, body) = (case t of
                           c # cs \<Rightarrow> if c = CHR ''-'' then (True, cs)
                                     else if c = CHR ''+'' then (False, cs)
                                     else (False, t)
                         | [] \<Rightarrow> (False, t))
      in case literal_digits body of
           None \<Rightarrow> Inl ValueError
         | Some ds \<Rightarrow> Inr (if neg then - int (nat_of_digits ds) else int (nat_of_digits ds)))"

text \<open>
  \<^verbatim>\<open>int(value)\<close>: integers, booleans and \<^verbatim>\<open>IntEnum\<close> members give their value, a finite
  float is truncated towards zero, \<^verbatim>\<open>inf\<close> is an \<^verbatim>\<open>OverflowError\<close>, a string is parsed,
  anything else is a \<^verbatim>\<open>TypeError\<close>.
\<close>

fun py_int :: "pyval \<Rightarrow> error + int" where
  "py_int (PInt n) = Inr n"
| "py_int (PBool b) = Inr (if b then 1 else 0)"
| "py_int (PFloat x) = Inr (if x < 0 then - \<lfloor>- x\<rfloor> else \<lfloor>x\<rfloor>)"
| "py_int PFloatInf = Inl OverflowError"
| "py_int (PStr s) = int_of_str s"
| "py_int (PCurrency m) = Inr (SteamCurrency_value m)"
| "py_int (PLegacyCurrency m) = Inr (SteamLegacyCurrency_value m)"
| "py_int (PAppID n) = Inr n"
| "py_int v = Inl TypeError"

text \<open>Truthiness, as \<^verbatim>\<open>if x:\<close> and \<^verbatim>\<open>x or y\<close> read it.\<close>

fun truthy :: "pyval \<Rightarrow> bool" where
  "truthy PNone = False"
| "truthy (PBool b) = b"
| "truthy (PInt n) = (n \<noteq> 0)"
| "truthy (PFloat x) = (x \<noteq> 0)"
| "truthy PFloatInf = True"
| "truthy (PStr s) = (s \<noteq> [])"
| "truthy (PCurrency m) = (SteamCurrency_value m \<noteq> 0)"
| "truthy (PLegacyCurrency m) = (SteamLegacyCurrency_value m \<noteq> 0)"
| "truthy (PAppID n) = (n \<noteq> 0)"
| "truthy (PLanguage s) = True"
| "truthy (PList xs) = (xs \<noteq> [])"
| "truthy (PTuple xs) = (xs \<noteq> [])"
| "truthy (PDict kvs) = (kvs \<noteq> [])"

definition py_or :: "pyval \<Rightarrow> pyval \<Rightarrow> pyval" where
  "py_or a b = (if truthy a then a else b)"

text \<open>
  Iterating a value (\<^verbatim>\<open>for x in value\<close>): a list or tuple gives its elements, a string
  its characters as strings of length one, a dictionary its keys; the other values are
  not iterable.
\<close>

fun py_iter :: "pyval \<Rightarrow> error + pyval list" where
  "py_iter (PList xs) = Inr xs"
| "py_iter (PTuple xs) = Inr xs"
| "py_iter (PStr s) = Inr (map (\<lambda>c. PStr [c]) s)"
| "py_iter (PDict kvs) = Inr (map fst kvs)"
| "py_iter v = Inl TypeError"

text \<open>\<^verbatim>\<open>value.items()\<close>: only a dictionary has the method.\<close>

fun py_items :: "pyval \<Rightarrow> error + (pyval \<times> pyval) list" where
  "py_items (PDict kvs) = Inr kvs"
| "py_items v = Inl AttributeError"

text \<open>\<^verbatim>\<open>d[key] = v\<close> on a dictionary: a present key keeps its place.\<close>

fun dict_set :: "(pyval \<times> pyval) list \<Rightarrow> pyval \<Rightarrow> pyval \<Rightarrow> (pyval \<times> pyval) list" where
  "dict_set [] k v = [(k, v)]"
| "dict_set ((k', v') # kvs) k v =
     (if k' = k then (k, v) # kvs else (k', v') # dict_set kvs k v)"

section \<open>Value sanitizers (decorators.py)\<close>

text \<open>\<^verbatim>\<open>[f(item) for item in xs]\<close> for an \<open>f\<close> that may raise: the first exception ends it.\<close>

fun map_result :: "('a \<Rightarrow> error + 'b) \<Rightarrow> 'a list \<Rightarrow> error + 'b list" where
  "map_result f [] = Inr []"
| "map_result f (x # xs) =
     (case f x of
        Inl e \<Rightarrow> Inl e
      | Inr y \<Rightarrow> (case map_result f xs of Inl e \<Rightarrow> Inl e | Inr ys \<Rightarrow> Inr (y # ys)))"

definition sanitize_app_id_value :: "pyval \<Rightarrow> error + pyval" where
  "sanitize_app_id_value v =
     (if isinstance v C_list
      then (case v of
              PList xs \<Rightarrow> map_sum id (\<lambda>ns. PList (map PInt ns)) (map_result py_int xs)
            | _ \<Rightarrow> Inl TypeError)
      else map_sum id PInt (py_int v))"

text \<open>
  \<^verbatim>\<open>_sanitize_currency_value\<close>, branch by branch. An enumeration member is tested first:
  a member of \<^verbatim>\<open>LegacyCurrency\<close> raises, a member of \<^verbatim>\<open>Currency\<close> is returned as it is.
  A string is looked up in the legacy names, then in the currency names. Any other
  instance of \<^verbatim>\<open>int\<close> is looked up by value, in the legacy values first, then by calling
  \<^verbatim>\<open>Currency(value)\<close> under \<^verbatim>\<open>try\<close>: the handler \<^verbatim>\<open>except KeyError\<close> turns a \<^verbatim>\<open>KeyError\<close>
  into \<^verbatim>\<open>InvalidCurrencyException\<close> and lets every other exception pass.
  A value of any other class is returned unchanged.
\<close>

definition sanitize_currency_value :: "pyval \<Rightarrow> error + pyval" where
  "sanitize_currency_value v =
     (if isinstance v C_Currency \<or> isinstance v C_LegacyCurrency
      then (if isinstance v C_LegacyCurrency then Inl (LegacyCurrencyException v) else Inr v)
      else if isinstance v C_str
      then (case v of
              PStr s \<Rightarrow>
                (if LegacyCurrency_from_string s \<noteq> None then Inl (LegacyCurrencyException v)
                 else (case Currency_from_string s of
                         None \<Rightarrow> Inl (InvalidCurrencyException v)
                       | Some c \<Rightarrow> Inr (PCurrency c)))
            | _ \<Rightarrow> Inl TypeError)
      else if isinstance v C_int
      then (case py_int v of
              Inl e \<Rightarrow> Inl e
            | Inr n \<Rightarrow>
                (if in_LegacyCurrency n then Inl (LegacyCurrencyException v)
                 else (case Currency_call n of
                         Inl e \<Rightarrow>
                           if e = KeyError then Inl (InvalidCurrencyException v) else Inl e
                       | Inr c \<Rightarrow> Inr (PCurrency c))))
      else Inr v)"

text \<open>
  \<^verbatim>\<open>_sanitize_market_items_dict\<close>: \<^verbatim>\<open>{int(app_id): list(items) for app_id, items in
  value.items()}\<close>. Two keys with the same integer value leave the later list.
\<close>

fun sanitize_items :: "(pyval \<times> pyval) list \<Rightarrow> (pyval \<times> pyval) list \<Rightarrow> error + pyval" where
  "sanitize_items acc [] = Inr (PDict acc)"
| "sanitize_items acc ((k, v) # kvs) =
     (case py_int k of
        Inl e \<Rightarrow> Inl e
      | Inr n \<Rightarrow> (case py_iter v of
                   Inl e \<Rightarrow> Inl e
                 | Inr xs \<Rightarrow> sanitize_items (dict_set acc (PInt n) (PList xs)) kvs))"

definition sanitize_market_items_dict :: "pyval \<Rightarrow> error + pyval" where
  "sanitize_market_items_dict v =
     (case py_items v of Inl e \<Rightarrow> Inl e | Inr kvs \<Rightarrow> sanitize_items [] kvs)"

text \<open>
  \<^verbatim>\<open>_sanitize_language_value\<close>. \<^verbatim>\<open>Language.from_string\<close> belongs to \<^verbatim>\<open>enums.py\<close>, which is
  not among the sources: it is the parameter \<open>from_string\<close>, which returns a member,
  \<^verbatim>\<open>None\<close>, or raises.
\<close>

definition sanitize_language_value :: "(pyval \<Rightarrow> error + pyval) \<Rightarrow> pyval \<Rightarrow> error + pyval" where
  "sanitize_language_value from_string v =
     (if isinstance v C_Language then Inr v
      else (case from_string v of
              Inl e \<Rightarrow> Inl e
            | Inr lanuage \<Rightarrow>
                if lanuage = PNone then Inl (InvalidLanguageException v) else Inr lanuage))"

text \<open>\<^verbatim>\<open>value.replace("/", "-")\<close>; a value that is not a string has no such method.\<close>

definition sanitize_market_hash_name_value :: "pyval \<Rightarrow> error + pyval" where
  "sanitize_market_hash_name_value v =
     (case v of
        PStr s \<Rightarrow> Inr (PStr (str_replace (CHR ''/'') ''-'' s))
      | _ \<Rightarrow> Inl AttributeError)"

definition sanitize_market_hash_names_value :: "pyval \<Rightarrow> error + pyval" where
  "sanitize_market_hash_names_value v =
     (case py_iter v of
        Inl e \<Rightarrow> Inl e
      | Inr xs \<Rightarrow> map_sum id PList (map_result sanitize_market_hash_name_value xs))"

definition valid_price_types :: "pyval list" where
  "valid_price_types = [PStr ''lowest_price'', PStr ''median_price'']"

text \<open>
  \<^verbatim>\<open>_sanitize_price_type_value\<close>: a string becomes a tuple of one element; any other value
  is iterated and returned as it is when every element is a valid price type.
\<close>

definition sanitize_price_type_value :: "pyval \<Rightarrow> error + pyval" where
  "sanitize_price_type_value v =
     (if isinstance v C_str
      then (if v \<notin> set valid_price_types then Inl ValueError else Inr (PTuple [v]))
      else (case py_iter v of
              Inl e \<Rightarrow> Inl e
            | Inr xs \<Rightarrow> if list_ex (\<lambda>p. p \<notin> set valid_price_types) xs then Inl ValueError
                        else Inr v))"

text \<open>The table \<^verbatim>\<open>_SANITIZE_FUNCS\<close>, keyed by parameter name, and its lookup.\<close>

definition SANITIZE_FUNCS ::
  "(pyval \<Rightarrow> error + pyval) \<Rightarrow> (string \<times> (pyval \<Rightarrow> error + pyval)) list" where
  "SANITIZE_FUNCS lang =
     [(''app_id'', sanitize_app_id_value),
      (''currency'', sanitize_currency_value),
      (''market_items_dict'', sanitize_market_items_dict),
      (''language'', sanitize_language_value lang),
      (''market_hash_name'', sanitize_market_hash_name_value),
      (''market_hash_names'', sanitize_market_hash_names_value),
      (''price_type'', sanitize_price_type_value)]"

definition sanitize_value :: "(pyval \<Rightarrow> error + pyval) \<Rightarrow> pyval \<Rightarrow> string \<Rightarrow> error + pyval" where
  "sanitize_value lang v param_name =
     (case map_of (SANITIZE_FUNCS lang) param_name of
        Some sanitize_func \<Rightarrow> sanitize_func v
      | None \<Rightarrow> Inr v)"

section \<open>The type validator (decorators.py)\<close>

text \<open>
  An annotation: a plain class, a \<^verbatim>\<open>Union\<close>, or one of the four parameterised containers
  of \<^verbatim>\<open>_TYPECHECK_FUNCS\<close>. \<open>T_other\<close> is a parameterised type with any other origin.
\<close>

datatype pytype =
    T_class pyclass
  | T_Union "pytype list"
  | T_dict pytype pytype
  | T_list pytype
  | T_set pytype
  | T_tuple "pytype list"
  | T_other

text \<open>
  \<^verbatim>\<open>_typecheck_value\<close> and its helpers. \<^verbatim>\<open>any\<close> and \<^verbatim>\<open>all\<close> over a generator stop at the
  first deciding element, so an exception raised by a later element is not reached.
  The container checks iterate the value without testing its own class.
\<close>

function typecheck_value :: "pyval \<Rightarrow> pytype \<Rightarrow> error + bool"
  and typecheck_any :: "pyval \<Rightarrow> pytype list \<Rightarrow> error + bool"
  and typecheck_all :: "pyval list \<Rightarrow> pytype \<Rightarrow> error + bool"
  and typecheck_all_items :: "(pyval \<times> pyval) list \<Rightarrow> pytype \<Rightarrow> pytype \<Rightarrow> error + bool"
  and typecheck_zip :: "pyval list \<Rightarrow> pytype list \<Rightarrow> error + bool"
where
  "typecheck_value v (T_class c) = Inr (isinstance v c)"
| "typecheck_value v (T_Union ts) = typecheck_any v ts"
| "typecheck_value v (T_dict kt vt) =
     (case py_items v of Inl e \<Rightarrow> Inl e | Inr kvs \<Rightarrow> typecheck_all_items kvs kt vt)"
| "typecheck_value v (T_list t) =
     (case py_iter v of Inl e \<Rightarrow> Inl e | Inr xs \<Rightarrow> typecheck_all xs t)"
| "typecheck_value v (T_set t) =
     (case py_iter v of Inl e \<Rightarrow> Inl e | Inr xs \<Rightarrow> typecheck_all xs t)"
| "typecheck_value v (T_tuple ts) =
     (case py_iter v of Inl e \<Rightarrow> Inl e | Inr xs \<Rightarrow> typecheck_zip xs ts)"
| "typecheck_value v T_other = Inr False"
| "typecheck_any v [] = Inr False"
| "typecheck_any v (t # ts) =
     (case typecheck_value v t of
        Inl e \<Rightarrow> Inl e
      | Inr ok \<Rightarrow> if ok then Inr True else typecheck_any v ts)"
| "typecheck_all [] t = Inr True"
| "typecheck_all (x # xs) t =
     (case typecheck_value x t of
        Inl e \<Rightarrow> Inl e
      | Inr ok \<Rightarrow> if ok then typecheck_all xs t else Inr False)"
| "typecheck_all_items [] kt vt = Inr True"
| "typecheck_all_items ((k, v) # kvs) kt vt =
     (case typecheck_value k kt of
        Inl e \<Rightarrow> Inl e
      | Inr ok \<Rightarrow>
          if ok
          then (case typecheck_value v vt of
                  Inl e \<Rightarrow> Inl e
                | Inr ok' \<Rightarrow> if ok' then typecheck_all_items kvs kt vt else Inr False)
          else Inr False)"
| "typecheck_zip [] ts = Inr True"
| "typecheck_zip (x # xs) [] = Inr True"
| "typecheck_zip (x # xs) (t # ts) =
     (case typecheck_value x t of
        Inl e \<Rightarrow> Inl e
      | Inr ok \<Rightarrow> if ok then typecheck_zip xs ts else Inr False)"
  by pat_completeness auto
termination
  by (relation "inv_image (less_than <*lex*> less_than) (\<lambda>a. case a of
        Inl (Inl (v, t)) \<Rightarrow> (2 * size t, 0)
      | Inl (Inr (v, ts)) \<Rightarrow> (2 * size_list size ts + 1, 0)
      | Inr (Inl (xs, t)) \<Rightarrow> (2 * size t + 1, length xs)
      | Inr (Inr (Inl (kvs, kt, vt))) \<Rightarrow> (2 * (size kt + size vt) + 1, length kvs)
      | Inr (Inr (Inr (xs, ts))) \<Rightarrow> (2 * size_list size ts + 1, 0))") auto

section \<open>The decorators (decorators.py)\<close>

text \<open>
  A call carries its positional arguments and its keyword arguments (in the order
  given). A signature lists the parameters with their defaults, and the annotations.
  The instance \<^verbatim>\<open>self\<close> is passed apart: it is the first parameter and the first
  positional argument in the source, and its name is in neither table the decorators
  consult, so both loops leave it alone.
\<close>

type_synonym kwargs = "(string \<times> pyval) list"

record pysignature =
  parameters :: "(string \<times> pyval option) list"
  annotations :: "(string \<times> pytype) list"

definition param_names :: "pysignature \<Rightarrow> string list" where
  "param_names sig = map fst (parameters sig)"

definition sanitize_param_names :: "(pyval \<Rightarrow> error + pyval) \<Rightarrow> string list" where
  "sanitize_param_names lang = map fst (SANITIZE_FUNCS lang)"

text \<open>
  The first loop of the wrapper in \<^verbatim>\<open>sanitized\<close>: \<^verbatim>\<open>param_names[i]\<close> raises \<^verbatim>\<open>IndexError\<close>
  when there are more positional arguments than parameters.
\<close>

fun sanitize_args ::
  "(pyval \<Rightarrow> error + pyval) \<Rightarrow> string list \<Rightarrow> pyval list \<Rightarrow> error + pyval list" where
  "sanitize_args lang names [] = Inr []"
| "sanitize_args lang [] (arg # args) = Inl IndexError"
| "sanitize_args lang (arg_name # names) (arg # args) =
     (case (if arg_name \<in> set (sanitize_param_names lang) then sanitize_value lang arg arg_name
            else Inr arg) of
        Inl e \<Rightarrow> Inl e
      | Inr arg' \<Rightarrow>
          (case sanitize_args lang names args of
             Inl e \<Rightarrow> Inl e
           | Inr args' \<Rightarrow> Inr (arg' # args')))"

fun sanitize_kwargs :: "(pyval \<Rightarrow> error + pyval) \<Rightarrow> kwargs \<Rightarrow> error + kwargs" where
  "sanitize_kwargs lang [] = Inr []"
| "sanitize_kwargs lang ((kwarg_name, kwarg_value) # kwargs) =
     (case (if kwarg_name \<in> set (sanitize_param_names lang)
            then sanitize_value lang kwarg_value kwarg_name
            else Inr kwarg_value) of
        Inl e \<Rightarrow> Inl e
      | Inr v \<Rightarrow>
          (case sanitize_kwargs lang kwargs of
             Inl e \<Rightarrow> Inl e
           | Inr kwargs' \<Rightarrow> Inr ((kwarg_name, v) # kwargs')))"

definition sanitized ::
  "(pyval \<Rightarrow> error + pyval) \<Rightarrow> pysignature \<Rightarrow> (pyval list \<Rightarrow> kwargs \<Rightarrow> error + 'r) \<Rightarrow>
     pyval list \<Rightarrow> kwargs \<Rightarrow> error + 'r" where
  "sanitized lang sig func args kwargs =
     (case sanitize_args lang (param_names sig) args of
        Inl e \<Rightarrow> Inl e
      | Inr args_list \<Rightarrow>
          (case sanitize_kwargs lang kwargs of
             Inl e \<Rightarrow> Inl e
           | Inr kwargs' \<Rightarrow> func args_list kwargs'))"

text \<open>
  The two loops of the wrapper in \<^verbatim>\<open>typechecked\<close>. An argument whose name has an
  annotation is checked against it; the first argument that does not match raises
  \<^verbatim>\<open>TypeError\<close>.
\<close>

fun typecheck_args :: "(string \<times> pytype) list \<Rightarrow> string list \<Rightarrow> pyval list \<Rightarrow> error + unit" where
  "typecheck_args ann names [] = Inr ()"
| "typecheck_args ann [] (arg # args) = Inl IndexError"
| "typecheck_args ann (arg_name # names) (arg # args) =
     (case map_of ann arg_name of
        None \<Rightarrow> typecheck_args ann names args
      | Some t \<Rightarrow>
          (case typecheck_value arg t of
             Inl e \<Rightarrow> Inl e
           | Inr ok \<Rightarrow> if ok then typecheck_args ann names args else Inl TypeError))"

fun typecheck_kwargs :: "(string \<times> pytype) list \<Rightarrow> kwargs \<Rightarrow> error + unit" where
  "typecheck_kwargs ann [] = Inr ()"
| "typecheck_kwargs ann ((kwarg_name, kwarg_value) # kwargs) =
     (case map_of ann kwarg_name of
        None \<Rightarrow> typecheck_kwargs ann kwargs
      | Some t \<Rightarrow>
          (case typecheck_value kwarg_value t of
             Inl e \<Rightarrow> Inl e
           | Inr ok \<Rightarrow> if ok then typecheck_kwargs ann kwargs else Inl TypeError))"

definition typechecked ::
  "pysignature \<Rightarrow> (pyval list \<Rightarrow> kwargs \<Rightarrow> error + 'r) \<Rightarrow> pyval list \<Rightarrow> kwargs \<Rightarrow> error + 'r" where
  "typechecked sig func args kwargs =
     (case typecheck_args (annotations sig) (param_names sig) args of
        Inl e \<Rightarrow> Inl e
      | Inr u \<Rightarrow>
          (case typecheck_kwargs (annotations sig) kwargs of
             Inl e \<Rightarrow> Inl e
           | Inr u' \<Rightarrow> func args kwargs))"

text \<open>
  Calling the undecorated function, \<^verbatim>\<open>func(*args, **kwargs)\<close>: Python binds the
  arguments to the parameters and raises \<^verbatim>\<open>TypeError\<close> for too many positional
  arguments, a keyword that is not a parameter, a parameter given twice, or a
  parameter without default that is not given. The result lists the values of the
  parameters in their order.
\<close>

fun bind_positional ::
  "(string \<times> pyval option) list \<Rightarrow> pyval list \<Rightarrow> kwargs \<Rightarrow> error + pyval list" where
  "bind_positional [] [] kwargs = Inr []"
| "bind_positional [] (arg # args) kwargs = Inl TypeError"
| "bind_positional ((name, dflt) # ps) (arg # args) kwargs =
     (if map_of kwargs name \<noteq> None then Inl TypeError
      else map_sum id (Cons arg) (bind_positional ps args kwargs))"
| "bind_positional ((name, dflt) # ps) [] kwargs =
     (case map_of kwargs name of
        Some v \<Rightarrow> map_sum id (Cons v) (bind_positional ps [] kwargs)
      | None \<Rightarrow>
          (case dflt of
             Some d \<Rightarrow> map_sum id (Cons d) (bind_positional ps [] kwargs)
           | None \<Rightarrow> Inl TypeError))"

definition bind_params :: "pysignature \<Rightarrow> pyval list \<Rightarrow> kwargs \<Rightarrow> error + pyval list" where
  "bind_params sig args kwargs =
     (if list_ex (\<lambda>(k, v). k \<notin> set (param_names sig)) kwargs then Inl TypeError
      else bind_positional (parameters sig) args kwargs)"

section \<open>Floats (the Python library)\<close>

text \<open>
  \<^verbatim>\<open>float(s)\<close> converts a decimal string to the binary64 value nearest to the number it
  denotes, a tie going to the value with the even significand (the conversion of CPython
  is correctly rounded). A binary64 value has a significand of 53 bits and an exponent
  that puts its last bit at \<open>2 ^ e\<close> with \<open>e\<close> from -1074 up; a number that rounds to
  \<open>2 ^ 1024\<close> or more becomes \<^verbatim>\<open>inf\<close>.
\<close>

text \<open>\<^verbatim>\<open>n.bit_length()\<close>: the number of binary digits of a natural number.\<close>

fun bit_length :: "nat \<Rightarrow> nat" where
  "bit_length n = (if n = 0 then 0 else Suc (bit_length (n div 2)))"

declare bit_length.simps [simp del]

text \<open>
  The exponent of the leading binary digit of a positive rational \<open>q\<close>: the \<open>k\<close> with
  \<open>2 ^ k \<le> q < 2 ^ (k + 1)\<close>.
\<close>

definition floor_log2 :: "rat \<Rightarrow> int" where
  "floor_log2 q =
     (if 1 \<le> q then int (bit_length (nat \<lfloor>q\<rfloor>)) - 1
      else - int (bit_length (nat (\<lceil>1 / q\<rceil> - 1))))"

text \<open>Rounding to the nearest integer, a tie going to the even one.\<close>

definition round_half_even :: "rat \<Rightarrow> int" where
  "round_half_even y =
     (let n = \<lfloor>y\<rfloor>; r = y - of_int n
      in if r < 1 / 2 then n else if 1 / 2 < r then n + 1 else if even n then n else n + 1)"

text \<open>
  The binary64 value nearest to a rational, before the test for overflow: the number is
  rounded to a multiple of \<open>2 ^ e\<close>, where \<open>e\<close> leaves 53 bits above it, or is -1074 for a
  number in the subnormal range.
\<close>

definition binary64 :: "rat \<Rightarrow> rat" where
  "binary64 q =
     (let e = max (floor_log2 \<bar>q\<bar> - 52) (- 1074)
      in sgn q * of_int (round_half_even (\<bar>q\<bar> / power_int 2 e)) * power_int 2 e)"

text \<open>The float that a non-negative decimal number converts to.\<close>

definition float_of_decimal :: "rat \<Rightarrow> pyval" where
  "float_of_decimal q =
     (let x = binary64 q in if 2 ^ 1024 \<le> x then PFloatInf else PFloat x)"




section \<open>The price string parser (market.py)\<close>

text \<open>
  \<^verbatim>\<open>re.search(r"(\d{1,3}(?:[.,]\d{3})*)(?:[.,](\d{2}))?", value)\<close>. The pattern is
  a sequence of three greedy parts, and each part after the first can match the empty
  string. Whatever the first part takes, the rest succeeds, so the engine never
  backtracks: at a given start the match is the longest run of one to three digits,
  then as many separator-and-three-digit groups as follow, then a separator and two
  digits when they follow. \<^verbatim>\<open>search\<close> returns the match at the leftmost start that has one.
  Only the ASCII digits are modelled for \<^verbatim>\<open>\d\<close>.
\<close>

definition is_sep :: "char \<Rightarrow> bool" where
  "is_sep c = (c = CHR ''.'' \<or> c = CHR '','')"

text \<open>\<^verbatim>\<open>\d{1,3}\<close>: the digits matched and the rest of the string.\<close>

definition match_digits :: "string \<Rightarrow> (string \<times> string) option" where
  "match_digits s =
     (let ds = takeWhile is_digit (take 3 s)
      in if ds = [] then None else Some (ds, drop (length ds) s))"

text \<open>\<^verbatim>\<open>(?:[.,]\d{3})*\<close>: the text matched and the rest of the string.\<close>

fun match_groups :: "string \<Rightarrow> string \<times> string" where
  "match_groups (c # d1 # d2 # d3 # rest) =
     (if is_sep c \<and> is_digit d1 \<and> is_digit d2 \<and> is_digit d3
      then (case match_groups rest of (g, r) \<Rightarrow> (c # d1 # d2 # d3 # g, r))
      else ([], c # d1 # d2 # d3 # rest))"
| "match_groups s = ([], s)"

text \<open>\<^verbatim>\<open>(?:[.,](\d{2}))?\<close>: the second group, \<open>None\<close> when the part matched nothing.\<close>

fun match_decimal :: "string \<Rightarrow> string option" where
  "match_decimal (c # d1 # d2 # rest) =
     (if is_sep c \<and> is_digit d1 \<and> is_digit d2 then Some [d1, d2] else None)"
| "match_decimal s = None"

text \<open>The groups 1 and 2 of a match that starts at the head of the string.\<close>

definition match_at :: "string \<Rightarrow> (string \<times> string option) option" where
  "match_at s =
     (case match_digits s of
        None \<Rightarrow> None
      | Some (ds, r) \<Rightarrow> (case match_groups r of (g, r') \<Rightarrow> Some (ds @ g, match_decimal r')))"

fun re_search :: "string \<Rightarrow> (string \<times> string option) option" where
  "re_search [] = match_at []"
| "re_search (c # cs) =
     (case match_at (c # cs) of Some m \<Rightarrow> Some m | None \<Rightarrow> re_search cs)"

text \<open>
  The string \<^verbatim>\<open>f"{num_str}.{decimal_part}"\<close> that \<^verbatim>\<open>_price_to_float\<close> hands to \<^verbatim>\<open>float\<close>,
  \<open>None\<close> when the pattern is not found.
\<close>

definition price_decimal_string :: "string \<Rightarrow> string option" where
  "price_decimal_string v =
     (case re_search v of
        None \<Rightarrow> None
      | Some (group1, group2) \<Rightarrow>
          (let num_str = str_replace (CHR ''.'') [] (str_replace (CHR '','') [] group1);
               decimal_part = (case group2 of Some d \<Rightarrow> d | None \<Rightarrow> ''00'')
           in Some (num_str @ ''.'' @ decimal_part)))"

text \<open>
  \<^verbatim>\<open>float(s)\<close> for a string of digits, a point and digits, which is all the parser
  passes: the float that the decimal number denoted by \<open>s\<close> converts to.
\<close>

definition py_float :: "string \<Rightarrow> pyval" where
  "py_float s =
     (let a = takeWhile (\<lambda>c. c \<noteq> CHR ''.'') s;
          b = drop (length a + 1) s
      in float_of_decimal (of_nat (nat_of_digits a) + of_nat (nat_of_digits b) / 10 ^ length b))"

definition price_to_float :: "string \<Rightarrow> pyval option" where
  "price_to_float v = map_option py_float (price_decimal_string v)"

text \<open>
  \<^verbatim>\<open>Market._price_to_float\<close> on a runtime value: \<^verbatim>\<open>re.search\<close> raises \<^verbatim>\<open>TypeError\<close> for
  a value that is not a string.
\<close>

definition Market_price_to_float :: "pyval \<Rightarrow> error + pyval" where
  "Market_price_to_float v =
     (case v of
        PStr s \<Rightarrow> Inr (case price_to_float s of None \<Rightarrow> PNone | Some x \<Rightarrow> x)
      | _ \<Rightarrow> Inl TypeError)"

section \<open>The market facade (market.py)\<close>

text \<open>
  The two collaborators that are not among the sources are parameters of the model:
  \<^verbatim>\<open>Language.from_string\<close> of \<^verbatim>\<open>enums.py\<close>, and \<^verbatim>\<open>_request_overview(app_id,
  market_hash_name, currency, raise_exception)\<close> of \<^verbatim>\<open>requests.py\<close>, which returns the
  overview of an item, a dictionary, or \<^verbatim>\<open>None\<close>, or raises.
\<close>

record externals =
  Language_from_string :: "pyval \<Rightarrow> error + pyval"
  request_overview :: "pyval \<Rightarrow> pyval \<Rightarrow> pyval \<Rightarrow> bool \<Rightarrow> error + (pyval \<times> pyval) list option"

record Market =
  self_currency :: pyval
  self_language :: pyval

definition overview_value :: "(pyval \<times> pyval) list option \<Rightarrow> pyval" where
  "overview_value item = (case item of None \<Rightarrow> PNone | Some kvs \<Rightarrow> PDict kvs)"

text \<open>\<^verbatim>\<open>int(value.replace(",", ""))\<close>, the conversion of a volume.\<close>

definition volume_to_int :: "pyval \<Rightarrow> error + pyval" where
  "volume_to_int v =
     (case v of
        PStr s \<Rightarrow> map_sum id PInt (int_of_str (str_replace (CHR '','') [] s))
      | _ \<Rightarrow> Inl AttributeError)"

text \<open>The loop of \<^verbatim>\<open>_overview_type_converter\<close> over \<^verbatim>\<open>overview.items()\<close>.\<close>

fun convert_items ::
  "pyval list \<Rightarrow> (pyval \<times> pyval) list \<Rightarrow> (pyval \<times> pyval) list \<Rightarrow> error + pyval" where
  "convert_items keys_to_convert result [] = Inr (PDict result)"
| "convert_items keys_to_convert result ((key, v) # kvs) =
     (case (if key \<in> set keys_to_convert \<and> key \<in> set [PStr ''lowest_price'', PStr ''median_price'']
            then Market_price_to_float v
            else if key \<in> set keys_to_convert \<and> key = PStr ''volume''
            then volume_to_int v
            else Inr v) of
        Inl e \<Rightarrow> Inl e
      | Inr v' \<Rightarrow> convert_items keys_to_convert (dict_set result key v') kvs)"

definition overview_type_converter :: "pyval \<Rightarrow> pyval list option \<Rightarrow> error + pyval" where
  "overview_type_converter overview keys_to_convert =
     (let valid_keys = [PStr ''lowest_price'', PStr ''median_price'', PStr ''volume''];
          keys = (case keys_to_convert of None \<Rightarrow> valid_keys | Some ks \<Rightarrow> ks)
      in if list_ex (\<lambda>key. key \<notin> set valid_keys) keys then Inl ValueError
         else (case py_items overview of
                 Inl e \<Rightarrow> Inl e
               | Inr kvs \<Rightarrow> convert_items keys [] kvs))"

text \<open>\<^verbatim>\<open>len(value)\<close> and hashability (a dictionary key must be hashable).\<close>

fun py_len :: "pyval \<Rightarrow> error + nat" where
  "py_len (PList xs) = Inr (length xs)"
| "py_len (PTuple xs) = Inr (length xs)"
| "py_len (PStr s) = Inr (length s)"
| "py_len (PDict kvs) = Inr (length kvs)"
| "py_len v = Inl TypeError"

fun hashable :: "pyval \<Rightarrow> bool" where
  "hashable (PList xs) = False"
| "hashable (PDict kvs) = False"
| "hashable (PTuple xs) = list_all hashable xs"
| "hashable v = True"

subsection \<open>Signatures\<close>

definition currency_type :: pytype where
  "currency_type =
     T_Union [T_class C_Currency, T_class C_LegacyCurrency, T_class C_int, T_class C_str]"

definition app_id_type :: pytype where
  "app_id_type = T_Union [T_class C_AppID, T_class C_int]"

definition init_sig :: pysignature where
  "init_sig =
    \<lparr>parameters = [(''currency'', Some (PCurrency USD)),
                   (''language'', Some (PLanguage ''ENGLISH''))],
     annotations = [(''currency'', currency_type),
                    (''language'', T_Union [T_class C_Language, T_class C_str]),
                    (''return'', T_class C_NoneType)]\<rparr>"

text \<open>
  \<^verbatim>\<open>get_overview\<close>, \<^verbatim>\<open>get_prices\<close>, \<^verbatim>\<open>get_lowest_price\<close> and \<^verbatim>\<open>get_median_price\<close> have the
  same parameters; their return annotations differ.
\<close>

definition item_parameters :: "(string \<times> pyval option) list" where
  "item_parameters =
     [(''app_id'', None), (''market_hash_name'', None),
      (''type_conversion'', Some (PBool True)), (''currency'', Some PNone)]"

definition item_annotations :: "pytype \<Rightarrow> (string \<times> pytype) list" where
  "item_annotations ret =
     [(''app_id'', app_id_type), (''market_hash_name'', T_class C_str),
      (''type_conversion'', T_class C_bool), (''currency'', currency_type),
      (''return'', ret)]"

definition get_overview_sig :: pysignature where
  "get_overview_sig =
    \<lparr>parameters = item_parameters,
     annotations = item_annotations
       (T_Union [T_dict (T_class C_str)
                   (T_Union [T_class C_bool, T_class C_float, T_class C_int, T_class C_str]),
                 T_class C_NoneType])\<rparr>"

definition get_overviews_sig :: pysignature where
  "get_overviews_sig =
    \<lparr>parameters = [(''app_id'', None), (''market_hash_names'', None),
                   (''type_conversion'', Some (PBool True)), (''currency'', Some PNone)],
     annotations = [(''app_id'', T_Union [T_class C_AppID, T_class C_int, T_list app_id_type]),
                    (''market_hash_names'', T_list (T_class C_str)),
                    (''type_conversion'', T_class C_bool), (''currency'', currency_type),
                    (''return'', T_dict (T_class C_str)
                        (T_dict (T_class C_str) (T_Union [T_class C_bool, T_class C_str])))]\<rparr>"

definition get_overviews_from_dict_sig :: pysignature where
  "get_overviews_from_dict_sig =
    \<lparr>parameters = [(''items_dict'', None),
                   (''type_conversion'', Some (PBool True)), (''currency'', Some PNone)],
     annotations = [(''items_dict'', T_dict app_id_type (T_list (T_class C_str))),
                    (''type_conversion'', T_class C_bool), (''currency'', currency_type),
                    (''return'', T_dict (T_class C_str)
                        (T_dict (T_class C_str) (T_Union [T_class C_bool, T_class C_str])))]\<rparr>"

definition get_prices_sig :: pysignature where
  "get_prices_sig =
    \<lparr>parameters = item_parameters,
     annotations = item_annotations
       (T_Union [T_dict (T_class C_str) (T_Union [T_class C_float, T_class C_str]),
                 T_class C_NoneType])\<rparr>"

definition get_lowest_price_sig :: pysignature where
  "get_lowest_price_sig =
    \<lparr>parameters = item_parameters,
     annotations = item_annotations (T_Union [T_class C_float, T_class C_NoneType])\<rparr>"

definition get_median_price_sig :: pysignature where
  "get_median_price_sig =
    \<lparr>parameters = item_parameters,
     annotations = item_annotations (T_Union [T_class C_float, T_class C_NoneType])\<rparr>"

definition get_price_sig :: pysignature where
  "get_price_sig =
    \<lparr>parameters = [(''app_id'', None), (''market_hash_name'', None), (''price_type'', None),
                   (''type_conversion'', Some (PBool True)), (''currency'', Some PNone)],
     annotations = [(''app_id'', app_id_type), (''market_hash_name'', T_class C_str),
                    (''price_type'', T_class C_str),
                    (''type_conversion'', T_class C_bool), (''currency'', currency_type),
                    (''return'', T_Union [T_class C_float, T_class C_NoneType])]\<rparr>"

definition get_volume_sig :: pysignature where
  "get_volume_sig =
    \<lparr>parameters = [(''app_id'', None), (''market_hash_name'', None),
                   (''type_conversion'', Some (PBool True))],
     annotations = [(''app_id'', app_id_type), (''market_hash_name'', T_class C_str),
                    (''type_conversion'', T_class C_bool),
                    (''return'', T_Union [T_class C_int, T_class C_NoneType])]\<rparr>"

subsection \<open>The method bodies\<close>

text \<open>
  Each body is the undecorated method: it receives the values of its parameters, as
  the decorators pass them on.
\<close>

definition init_body :: "pyval \<Rightarrow> pyval \<Rightarrow> error + Market" where
  "init_body currency language = Inr \<lparr>self_currency = currency, self_language = language\<rparr>"

definition get_overview_body ::
  "externals \<Rightarrow> Market \<Rightarrow> pyval \<Rightarrow> pyval \<Rightarrow> pyval \<Rightarrow> pyval \<Rightarrow> error + pyval" where
  "get_overview_body ext self app_id market_hash_name type_conversion currency =
     (case request_overview ext app_id market_hash_name
             (py_or currency (self_currency self)) True of
        Inl e \<Rightarrow> Inl e
      | Inr data \<Rightarrow>
          if truthy type_conversion then overview_type_converter (overview_value data) None
          else Inr (overview_value data))"

text \<open>
  One item of a batch, as both batch methods treat it: the request is made with
  \<^verbatim>\<open>raise_exception=False\<close>, and the result goes through the converter when
  \<^verbatim>\<open>type_conversion\<close> holds.
\<close>

definition batch_item ::
  "externals \<Rightarrow> Market \<Rightarrow> pyval \<Rightarrow> pyval \<Rightarrow> pyval \<Rightarrow> pyval \<Rightarrow> error + pyval" where
  "batch_item ext self type_conversion currency app_id name =
     (case request_overview ext app_id name (py_or currency (self_currency self)) False of
        Inl e \<Rightarrow> Inl e
      | Inr result \<Rightarrow>
          if truthy type_conversion then overview_type_converter (overview_value result) None
          else Inr (overview_value result))"

text \<open>The dictionary comprehension of \<^verbatim>\<open>get_overviews\<close> over \<^verbatim>\<open>zip(market_hash_names, app_id)\<close>.\<close>

fun get_overviews_loop ::
  "externals \<Rightarrow> Market \<Rightarrow> pyval \<Rightarrow> pyval \<Rightarrow> (pyval \<times> pyval) list \<Rightarrow>
     (pyval \<times> pyval) list \<Rightarrow> error + pyval" where
  "get_overviews_loop ext self type_conversion currency result [] = Inr (PDict result)"
| "get_overviews_loop ext self type_conversion currency result ((name, app_id) # rest) =
     (case batch_item ext self type_conversion currency app_id name of
        Inl e \<Rightarrow> Inl e
      | Inr v \<Rightarrow>
          get_overviews_loop ext self type_conversion currency (dict_set result name v) rest)"

definition get_overviews_body ::
  "externals \<Rightarrow> Market \<Rightarrow> pyval \<Rightarrow> pyval \<Rightarrow> pyval \<Rightarrow> pyval \<Rightarrow> error + pyval" where
  "get_overviews_body ext self app_id market_hash_names type_conversion currency =
     (case py_len market_hash_names of
        Inl e \<Rightarrow> Inl e
      | Inr n \<Rightarrow>
          (let app_id' = (if \<not> isinstance app_id C_list then PList (replicate n app_id)
                          else app_id)
           in case py_len app_id' of
                Inl e \<Rightarrow> Inl e
              | Inr m \<Rightarrow>
                  if n \<noteq> m then Inl IndexError
                  else (case py_iter market_hash_names of
                          Inl e \<Rightarrow> Inl e
                        | Inr names \<Rightarrow>
                            (case py_iter app_id' of
                               Inl e \<Rightarrow> Inl e
                             | Inr ids \<Rightarrow>
                                 get_overviews_loop ext self type_conversion currency []
                                   (zip names ids)))))"

text \<open>The two nested loops of \<^verbatim>\<open>get_overviews_from_dict\<close>.\<close>

fun from_dict_names ::
  "externals \<Rightarrow> Market \<Rightarrow> pyval \<Rightarrow> pyval \<Rightarrow> pyval \<Rightarrow> (pyval \<times> pyval) list \<Rightarrow>
     pyval list \<Rightarrow> error + (pyval \<times> pyval) list" where
  "from_dict_names ext self type_conversion currency app_id result [] = Inr result"
| "from_dict_names ext self type_conversion currency app_id result (name # names) =
     (case batch_item ext self type_conversion currency app_id name of
        Inl e \<Rightarrow> Inl e
      | Inr overview \<Rightarrow>
          from_dict_names ext self type_conversion currency app_id
            (dict_set result name overview) names)"

fun from_dict_items ::
  "externals \<Rightarrow> Market \<Rightarrow> pyval \<Rightarrow> pyval \<Rightarrow> (pyval \<times> pyval) list \<Rightarrow>
     (pyval \<times> pyval) list \<Rightarrow> error + pyval" where
  "from_dict_items ext self type_conversion currency result [] = Inr (PDict result)"
| "from_dict_items ext self type_conversion currency result ((app_id, names) # items) =
     (case py_iter names of
        Inl e \<Rightarrow> Inl e
      | Inr ns \<Rightarrow>
          (case from_dict_names ext self type_conversion currency app_id result ns of
             Inl e \<Rightarrow> Inl e
           | Inr result' \<Rightarrow> from_dict_items ext self type_conversion currency result' items))"

definition get_overviews_from_dict_body ::
  "externals \<Rightarrow> Market \<Rightarrow> pyval \<Rightarrow> pyval \<Rightarrow> pyval \<Rightarrow> error + pyval" where
  "get_overviews_from_dict_body ext self items_dict type_conversion currency =
     (case py_items items_dict of
        Inl e \<Rightarrow> Inl e
      | Inr items \<Rightarrow> from_dict_items ext self type_conversion currency [] items)"

text \<open>The comprehension of \<^verbatim>\<open>get_prices\<close> over \<^verbatim>\<open>price_keys\<close>.\<close>

fun get_prices_loop ::
  "(pyval \<times> pyval) list \<Rightarrow> pyval \<Rightarrow> (pyval \<times> pyval) list \<Rightarrow> pyval list \<Rightarrow> error + pyval" where
  "get_prices_loop item type_conversion prices [] =
     Inr (py_or (PDict prices) PNone)"
| "get_prices_loop item type_conversion prices (key # price_keys) =
     (case map_of item key of
        None \<Rightarrow> get_prices_loop item type_conversion prices price_keys
      | Some v \<Rightarrow>
          (case (if truthy type_conversion then Market_price_to_float v else Inr v) of
             Inl e \<Rightarrow> Inl e
           | Inr v' \<Rightarrow>
               get_prices_loop item type_conversion (dict_set prices key v') price_keys))"

definition get_prices_body ::
  "externals \<Rightarrow> Market \<Rightarrow> pyval \<Rightarrow> pyval \<Rightarrow> pyval \<Rightarrow> pyval \<Rightarrow> error + pyval" where
  "get_prices_body ext self app_id market_hash_name type_conversion currency =
     (case request_overview ext app_id market_hash_name
             (py_or currency (self_currency self)) True of
        Inl e \<Rightarrow> Inl e
      | Inr None \<Rightarrow> Inr PNone
      | Inr (Some item) \<Rightarrow>
          get_prices_loop item type_conversion []
            [PStr ''lowest_price'', PStr ''median_price''])"

text \<open>
  The private method \<^verbatim>\<open>_get_price\<close>. \<^verbatim>\<open>price_type not in item\<close> looks the value of
  \<^verbatim>\<open>price_type\<close> up among the keys of the dictionary, whatever its class.
\<close>

definition get_price_impl ::
  "externals \<Rightarrow> Market \<Rightarrow> pyval \<Rightarrow> pyval \<Rightarrow> pyval \<Rightarrow> pyval \<Rightarrow> pyval \<Rightarrow> error + pyval" where
  "get_price_impl ext self app_id market_hash_name price_type type_conversion currency =
     (case request_overview ext app_id market_hash_name
             (py_or currency (self_currency self)) True of
        Inl e \<Rightarrow> Inl e
      | Inr None \<Rightarrow> Inr PNone
      | Inr (Some item) \<Rightarrow>
          if \<not> hashable price_type then Inl TypeError
          else (case map_of item price_type of
                  None \<Rightarrow> Inr PNone
                | Some v \<Rightarrow> if truthy type_conversion then Market_price_to_float v else Inr v))"

definition get_lowest_price_body ::
  "externals \<Rightarrow> Market \<Rightarrow> pyval \<Rightarrow> pyval \<Rightarrow> pyval \<Rightarrow> pyval \<Rightarrow> error + pyval" where
  "get_lowest_price_body ext self app_id market_hash_name type_conversion currency =
     get_price_impl ext self app_id market_hash_name (PStr ''lowest_price'') type_conversion
       (py_or currency (self_currency self))"

definition get_median_price_body ::
  "externals \<Rightarrow> Market \<Rightarrow> pyval \<Rightarrow> pyval \<Rightarrow> pyval \<Rightarrow> pyval \<Rightarrow> error + pyval" where
  "get_median_price_body ext self app_id market_hash_name type_conversion currency =
     get_price_impl ext self app_id market_hash_name (PStr ''median_price'') type_conversion
       (py_or currency (self_currency self))"

definition get_price_body ::
  "externals \<Rightarrow> Market \<Rightarrow> pyval \<Rightarrow> pyval \<Rightarrow> pyval \<Rightarrow> pyval \<Rightarrow> pyval \<Rightarrow> error + pyval" where
  "get_price_body ext self app_id market_hash_name price_type type_conversion currency =
     get_price_impl ext self app_id market_hash_name price_type type_conversion currency"

definition get_volume_body ::
  "externals \<Rightarrow> Market \<Rightarrow> pyval \<Rightarrow> pyval \<Rightarrow> pyval \<Rightarrow> error + pyval" where
  "get_volume_body ext self app_id market_hash_name type_conversion =
     (case request_overview ext app_id market_hash_name (self_currency self) True of
        Inl e \<Rightarrow> Inl e
      | Inr None \<Rightarrow> Inr PNone
      | Inr (Some item) \<Rightarrow>
          (case map_of item (PStr ''volume'') of
             None \<Rightarrow> Inr PNone
           | Some v \<Rightarrow> if truthy type_conversion then volume_to_int v else Inr v))"

subsection \<open>The decorated methods\<close>

text \<open>
  Every public method is written \<^verbatim>\<open>@typechecked\<close> over \<^verbatim>\<open>@sanitized\<close> over the body, so a
  call enters the wrapper of \<^verbatim>\<open>typechecked\<close>, which calls the wrapper of \<^verbatim>\<open>sanitized\<close>,
  which calls the body. \<^verbatim>\<open>functools.wraps\<close> gives each wrapper the signature and the
  annotations of the body.
\<close>

definition call_function ::
  "pysignature \<Rightarrow> (pyval list \<Rightarrow> error + 'r) \<Rightarrow> pyval list \<Rightarrow> kwargs \<Rightarrow> error + 'r" where
  "call_function sig body args kwargs =
     (case bind_params sig args kwargs of Inl e \<Rightarrow> Inl e | Inr vs \<Rightarrow> body vs)"

definition decorated ::
  "externals \<Rightarrow> pysignature \<Rightarrow> (pyval list \<Rightarrow> error + 'r) \<Rightarrow> pyval list \<Rightarrow> kwargs \<Rightarrow> error + 'r" where
  "decorated ext sig body =
     typechecked sig (sanitized (Language_from_string ext) sig (call_function sig body))"

text \<open>The body receives the values of its parameters, one argument each.\<close>

definition unpack2 :: "(pyval \<Rightarrow> pyval \<Rightarrow> error + 'r) \<Rightarrow> pyval list \<Rightarrow> error + 'r" where
  "unpack2 f vs = (case vs of [a, b] \<Rightarrow> f a b | _ \<Rightarrow> Inl TypeError)"

definition unpack3 ::
  "(pyval \<Rightarrow> pyval \<Rightarrow> pyval \<Rightarrow> error + 'r) \<Rightarrow> pyval list \<Rightarrow> error + 'r" where
  "unpack3 f vs = (case vs of [a, b, c] \<Rightarrow> f a b c | _ \<Rightarrow> Inl TypeError)"

definition unpack4 ::
  "(pyval \<Rightarrow> pyval \<Rightarrow> pyval \<Rightarrow> pyval \<Rightarrow> error + 'r) \<Rightarrow> pyval list \<Rightarrow> error + 'r" where
  "unpack4 f vs = (case vs of [a, b, c, d] \<Rightarrow> f a b c d | _ \<Rightarrow> Inl TypeError)"

definition unpack5 ::
  "(pyval \<Rightarrow> pyval \<Rightarrow> pyval \<Rightarrow> pyval \<Rightarrow> pyval \<Rightarrow> error + 'r) \<Rightarrow> pyval list \<Rightarrow> error + 'r" where
  "unpack5 f vs = (case vs of [a, b, c, d, e] \<Rightarrow> f a b c d e | _ \<Rightarrow> Inl TypeError)"

definition Market_init :: "externals \<Rightarrow> pyval list \<Rightarrow> kwargs \<Rightarrow> error + Market" where
  "Market_init ext = decorated ext init_sig (unpack2 init_body)"

definition get_overview :: "externals \<Rightarrow> Market \<Rightarrow> pyval list \<Rightarrow> kwargs \<Rightarrow> error + pyval" where
  "get_overview ext self =
     decorated ext get_overview_sig (unpack4 (get_overview_body ext self))"

definition get_overviews :: "externals \<Rightarrow> Market \<Rightarrow> pyval list \<Rightarrow> kwargs \<Rightarrow> error + pyval" where
  "get_overviews ext self =
     decorated ext get_overviews_sig (unpack4 (get_overviews_body ext self))"

definition get_overviews_from_dict ::
  "externals \<Rightarrow> Market \<Rightarrow> pyval list \<Rightarrow> kwargs \<Rightarrow> error + pyval" where
  "get_overviews_from_dict ext self =
     decorated ext get_overviews_from_dict_sig (unpack3 (get_overviews_from_dict_body ext self))"

definition get_prices :: "externals \<Rightarrow> Market \<Rightarrow> pyval list \<Rightarrow> kwargs \<Rightarrow> error + pyval" where
  "get_prices ext self =
     decorated ext get_prices_sig (unpack4 (get_prices_body ext self))"

definition get_lowest_price :: "externals \<Rightarrow> Market \<Rightarrow> pyval list \<Rightarrow> kwargs \<Rightarrow> error + pyval" where
  "get_lowest_price ext self =
     decorated ext get_lowest_price_sig (unpack4 (get_lowest_price_body ext self))"

definition get_median_price :: "externals \<Rightarrow> Market \<Rightarrow> pyval list \<Rightarrow> kwargs \<Rightarrow> error + pyval" where
  "get_median_price ext self =
     decorated ext get_median_price_sig (unpack4 (get_median_price_body ext self))"

definition get_price :: "externals \<Rightarrow> Market \<Rightarrow> pyval list \<Rightarrow> kwargs \<Rightarrow> error + pyval" where
  "get_price ext self =
     decorated ext get_price_sig (unpack5 (get_price_body ext self))"

definition get_volume :: "externals \<Rightarrow> Market \<Rightarrow> pyval list \<Rightarrow> kwargs \<Rightarrow> error + pyval" where
  "get_volume ext self =
     decorated ext get_volume_sig (unpack3 (get_volume_body ext self))"

subsection \<open>The public operations as one family\<close>

text \<open>
  The eight public operations of the facade, to state a property of all of them: each
  has its signature and its body, and calling it is calling the decorated method.
\<close>

datatype operation =
    Get_overview | Get_overviews | Get_overviews_from_dict | Get_prices
  | Get_lowest_price | Get_median_price | Get_price | Get_volume

fun signature_of :: "operation \<Rightarrow> pysignature" where
  "signature_of Get_overview = get_overview_sig"
| "signature_of Get_overviews = get_overviews_sig"
| "signature_of Get_overviews_from_dict = get_overviews_from_dict_sig"
| "signature_of Get_prices = get_prices_sig"
| "signature_of Get_lowest_price = get_lowest_price_sig"
| "signature_of Get_median_price = get_median_price_sig"
| "signature_of Get_price = get_price_sig"
| "signature_of Get_volume = get_volume_sig"

fun body_of :: "externals \<Rightarrow> Market \<Rightarrow> operation \<Rightarrow> pyval list \<Rightarrow> error + pyval" where
  "body_of ext self Get_overview = unpack4 (get_overview_body ext self)"
| "body_of ext self Get_overviews = unpack4 (get_overviews_body ext self)"
| "body_of ext self Get_overviews_from_dict = unpack3 (get_overviews_from_dict_body ext self)"
| "body_of ext self Get_prices = unpack4 (get_prices_body ext self)"
| "body_of ext self Get_lowest_price = unpack4 (get_lowest_price_body ext self)"
| "body_of ext self Get_median_price = unpack4 (get_median_price_body ext self)"
| "body_of ext self Get_price = unpack5 (get_price_body ext self)"
| "body_of ext self Get_volume = unpack3 (get_volume_body ext self)"

fun facade :: "externals \<Rightarrow> Market \<Rightarrow> operation \<Rightarrow> pyval list \<Rightarrow> kwargs \<Rightarrow> error + pyval" where
  "facade ext self Get_overview = get_overview ext self"
| "facade ext self Get_overviews = get_overviews ext self"
| "facade ext self Get_overviews_from_dict = get_overviews_from_dict ext self"
| "facade ext self Get_prices = get_prices ext self"
| "facade ext self Get_lowest_price = get_lowest_price ext self"
| "facade ext self Get_median_price = get_median_price ext self"
| "facade ext self Get_price = get_price ext self"
| "facade ext self Get_volume = get_volume ext self"

section \<open>Vocabulary of the statements\<close>

text \<open>
  The shape of a price string in the words of the specification: one to three leading
  digits \<open>ds\<close>, then groups of a separator and exactly three digits, then optionally a
  separator and exactly two digits. \<open>price_string\<close> writes the string out.
\<close>

definition price_string ::
  "string \<Rightarrow> (char \<times> string) list \<Rightarrow> (char \<times> string) option \<Rightarrow> string" where
  "price_string ds groups dec =
     ds @ concat (map (\<lambda>(c, g). c # g) groups) @
       (case dec of None \<Rightarrow> [] | Some (c, d) \<Rightarrow> c # d)"

definition price_shape ::
  "string \<Rightarrow> (char \<times> string) list \<Rightarrow> (char \<times> string) option \<Rightarrow> bool" where
  "price_shape ds groups dec =
     (1 \<le> length ds \<and> length ds \<le> 3 \<and> list_all is_digit ds \<and>
      list_all (\<lambda>(c, g). is_sep c \<and> length g = 3 \<and> list_all is_digit g) groups \<and>
      (case dec of
         None \<Rightarrow> True
       | Some (c, d) \<Rightarrow> is_sep c \<and> length d = 2 \<and> list_all is_digit d))"

text \<open>
  The number of a price string of that shape, in the words of the specification: its
  integer part is the leading digits and the groups written one after the other, its
  cents are the final two digits, or 00 when there is no such final part.
\<close>

definition price_number ::
  "string \<Rightarrow> (char \<times> string) list \<Rightarrow> (char \<times> string) option \<Rightarrow> rat" where
  "price_number ds groups dec =
     of_nat (nat_of_digits (ds @ concat (map snd groups))) +
     of_nat (nat_of_digits (case dec of None \<Rightarrow> ''00'' | Some (c, d) \<Rightarrow> d)) / 100"

text \<open>
  A batch written out request by request, to state what the batch operations ask of
  the remote side: the names of one application in turn, each requested with the given
  currency and \<^verbatim>\<open>raise_exception=False\<close>, its overview converted and stored under the name;
  and the same for a list of applications, each with its names.
\<close>

fun requested_batch ::
  "externals \<Rightarrow> pyval \<Rightarrow> pyval \<Rightarrow> (pyval \<times> pyval) list \<Rightarrow> pyval list \<Rightarrow>
     error + (pyval \<times> pyval) list" where
  "requested_batch ext currency app_id result [] = Inr result"
| "requested_batch ext currency app_id result (name # names) =
     (case request_overview ext app_id name currency False of
        Inl e \<Rightarrow> Inl e
      | Inr data \<Rightarrow>
          (case overview_type_converter (overview_value data) None of
             Inl e \<Rightarrow> Inl e
           | Inr v \<Rightarrow> requested_batch ext currency app_id (dict_set result name v) names))"

fun requested_groups ::
  "externals \<Rightarrow> pyval \<Rightarrow> (pyval \<times> pyval) list \<Rightarrow> (pyval \<times> pyval list) list \<Rightarrow>
     error + (pyval \<times> pyval) list" where
  "requested_groups ext currency result [] = Inr result"
| "requested_groups ext currency result ((app_id, names) # groups) =
     (case requested_batch ext currency app_id result names of
        Inl e \<Rightarrow> Inl e
      | Inr result' \<Rightarrow> requested_groups ext currency result' groups)"

text \<open>
  Two fixtures for the closed statements: a facade instance as the constructor leaves
  it by default, and a remote side that knows the one item \<^verbatim>\<open>"known"\<close>.
\<close>

definition default_market :: Market where
  "default_market = \<lparr>self_currency = PCurrency USD, self_language = PLanguage ''ENGLISH''\<rparr>"

definition known_overview :: "(pyval \<times> pyval) list" where
  "known_overview =
     [(PStr ''success'', PBool True), (PStr ''lowest_price'', PStr ''$1,234.56''),
      (PStr ''volume'', PStr ''1,024''), (PStr ''median_price'', PStr ''$1,200.00'')]"

definition one_item_remote :: externals where
  "one_item_remote =
     \<lparr>Language_from_string = (\<lambda>v. Inr PNone),
      request_overview = (\<lambda>app_id name currency raise_exception.
         if name = PStr ''known'' then Inr (Some known_overview)
         else if raise_exception then Inl InvalidItemOrAppIDException
         else Inr None)\<rparr>"

text \<open>
  A remote side that answers every request with the name and the currency it was asked
  for, and one whose only item has no price to show.
\<close>

definition echo_remote :: externals where
  "echo_remote =
     \<lparr>Language_from_string = (\<lambda>v. Inr PNone),
      request_overview = (\<lambda>app_id name currency raise_exception.
         Inr (Some [(PStr ''requested'', name), (PStr ''currency'', currency)]))\<rparr>"

definition unpriced_remote :: externals where
  "unpriced_remote =
     \<lparr>Language_from_string = (\<lambda>v. Inr PNone),
      request_overview = (\<lambda>app_id name currency raise_exception.
         Inr (Some [(PStr ''success'', PBool True), (PStr ''lowest_price'', PStr ''N/A'')]))\<rparr>"

section \<open>The currency sanitizer\<close>

lemma all_SteamLegacyCurrency: "l \<in> snd ` set SteamLegacyCurrency_members"
  by (cases l; simp add: SteamLegacyCurrency_members_def)

lemma Currency_of_value_None:
  "(\<forall>m. SteamCurrency_value m \<noteq> n) \<Longrightarrow> Currency_of_value n = None"
  by (auto simp: Currency_of_value_def find_None_iff)

lemma in_LegacyCurrency_iff:
  "in_LegacyCurrency n \<longleftrightarrow> (\<exists>l. SteamLegacyCurrency_value l = n)"
proof
  assume "in_LegacyCurrency n"
  then show "\<exists>l. SteamLegacyCurrency_value l = n"
    by (auto simp: in_LegacyCurrency_def)
next
  assume "\<exists>l. SteamLegacyCurrency_value l = n"
  then obtain l where l: "SteamLegacyCurrency_value l = n" by blast
  have "l \<in> snd ` set SteamLegacyCurrency_members" by (rule all_SteamLegacyCurrency)
  with l show "in_LegacyCurrency n"
    by (force simp: in_LegacyCurrency_def)
qed

lemma from_string_None:
  "(\<forall>m. (map ascii_upper s, m) \<notin> set members) \<Longrightarrow>
     map_of members (map ascii_upper s) = None"
  by (metis map_of_SomeD not_Some_eq)

text \<open>
  The three shapes that the sanitizer does reject when they resolve to a legacy value:
  a member of the legacy enumeration, an integer, and a name.
\<close>

lemma sanitize_currency_legacy_member:
  "sanitize_currency_value (PLegacyCurrency l) = Inl (LegacyCurrencyException (PLegacyCurrency l))"
  by (simp add: sanitize_currency_value_def)

lemma sanitize_currency_legacy_int:
  "SteamLegacyCurrency_value l = n \<Longrightarrow>
     sanitize_currency_value (PInt n) = Inl (LegacyCurrencyException (PInt n))"
  using in_LegacyCurrency_iff[of n] by (auto simp: sanitize_currency_value_def)

lemma sanitize_currency_legacy_name:
  "(map ascii_upper s, l) \<in> set SteamLegacyCurrency_members \<Longrightarrow>
     sanitize_currency_value (PStr s) = Inl (LegacyCurrencyException (PStr s))"
proof -
  assume a: "(map ascii_upper s, l) \<in> set SteamLegacyCurrency_members"
  have "distinct (map fst SteamLegacyCurrency_members)"
    by (simp add: SteamLegacyCurrency_members_def)
  then have "map_of SteamLegacyCurrency_members (map ascii_upper s) = Some l"
    using a by (rule map_of_is_SomeI)
  then show ?thesis
    by (simp add: sanitize_currency_value_def LegacyCurrency_from_string_def)
qed

text \<open>
  C1. The claim: whatever the shape of a currency input (member of the currency
  enumeration, member of the legacy enumeration, integer, name), when its value is a
  legacy value the sanitizer raises \<^verbatim>\<open>LegacyCurrencyException\<close> and never accepts it.
  The code does so for three of the four shapes (the lemmas above). A member of the
  currency enumeration is returned as it stands by the first branch, which tests the
  class of the member and not its value: \<^verbatim>\<open>SEK\<close> of the currency enumeration has the
  legacy value 33 and is accepted, while the integer 33, the name and the legacy member
  are rejected.
\<close>

theorem sanitize_currency_accepts_legacy_valued_member:
  "SteamCurrency_value SEK = SteamLegacyCurrency_value Legacy_SEK \<and>
   in_LegacyCurrency (SteamCurrency_value SEK) \<and>
   sanitize_currency_value (PCurrency SEK) = Inr (PCurrency SEK) \<and>
   sanitize_currency_value (PInt 33) = Inl (LegacyCurrencyException (PInt 33)) \<and>
   sanitize_currency_value (PStr ''SEK'') = Inl (LegacyCurrencyException (PStr ''SEK'')) \<and>
   sanitize_currency_value (PLegacyCurrency Legacy_SEK) =
     Inl (LegacyCurrencyException (PLegacyCurrency Legacy_SEK))"
  by (simp add: sanitize_currency_value_def in_LegacyCurrency_def
      SteamLegacyCurrency_members_def LegacyCurrency_from_string_def ascii_upper_def)

text \<open>
  The two shapes of an input that matches no member of either enumeration: the name is
  rejected as invalid, the integer leaves the sanitizer as the \<^verbatim>\<open>ValueError\<close> of the
  enumeration call.
\<close>

lemma sanitize_currency_unknown_name:
  "(\<forall>m. (map ascii_upper s, m) \<notin> set SteamCurrency_members) \<Longrightarrow>
   (\<forall>l. (map ascii_upper s, l) \<notin> set SteamLegacyCurrency_members) \<Longrightarrow>
     sanitize_currency_value (PStr s) = Inl (InvalidCurrencyException (PStr s))"
  by (simp add: sanitize_currency_value_def Currency_from_string_def
      LegacyCurrency_from_string_def from_string_None)

lemma sanitize_currency_unknown_int:
  "(\<forall>m. SteamCurrency_value m \<noteq> n) \<Longrightarrow> (\<forall>l. SteamLegacyCurrency_value l \<noteq> n) \<Longrightarrow>
     sanitize_currency_value (PInt n) = Inl ValueError"
  by (simp add: sanitize_currency_value_def Currency_call_def Currency_of_value_None
      in_LegacyCurrency_iff)

text \<open>
  C8. The claim: an integer or a string that matches no member of either enumeration
  makes the sanitizer raise \<^verbatim>\<open>InvalidCurrencyException\<close>, and nothing else. For an integer
  the code calls \<^verbatim>\<open>Currency(value)\<close> and catches \<^verbatim>\<open>KeyError\<close>; the call of an enumeration
  with an unknown value raises \<^verbatim>\<open>ValueError\<close>, which the handler lets pass. So 999 raises
  \<^verbatim>\<open>ValueError\<close>, and no integer at all raises \<^verbatim>\<open>InvalidCurrencyException\<close>.
\<close>

theorem sanitize_currency_unknown_int_raises_ValueError:
  "Currency_call 999 = Inl ValueError \<and>
   \<not> in_LegacyCurrency 999 \<and>
   sanitize_currency_value (PInt 999) = Inl ValueError \<and>
   sanitize_currency_value (PInt 0) = Inl ValueError \<and>
   sanitize_currency_value (PInt 1) = Inr (PCurrency USD) \<and>
   (\<forall>n v. sanitize_currency_value (PInt n) \<noteq> Inl (InvalidCurrencyException v))"
proof -
  have a: "Currency_call 999 = Inl ValueError" "Currency_call 0 = Inl ValueError"
    "Currency_call 1 = Inr USD"
    by (simp_all add: Currency_call_def Currency_of_value_def SteamCurrency_members_def)
  have b: "\<not> in_LegacyCurrency 999" "\<not> in_LegacyCurrency 0" "\<not> in_LegacyCurrency 1"
    by (simp_all add: in_LegacyCurrency_def SteamLegacyCurrency_members_def)
  have c: "e = ValueError" if "Currency_call n = Inl e" for n e
    using that by (simp add: Currency_call_def split: option.splits)
  have d: "sanitize_currency_value (PInt n) \<noteq> Inl (InvalidCurrencyException v)" for n v
    by (auto simp: sanitize_currency_value_def split: sum.splits dest: c)
  from a b d show ?thesis
    by (simp add: sanitize_currency_value_def)
qed

section \<open>Floats: what the conversion guarantees\<close>

subsection \<open>The leading binary digit and the rounding of a quotient\<close>

lemma bit_length_bounds:
  "0 < n \<Longrightarrow> 2 ^ (bit_length n - 1) \<le> n \<and> n < 2 ^ bit_length n"
proof (induction n rule: bit_length.induct)
  case (1 n)
  show ?case
  proof (cases "n div 2 = 0")
    case True
    with "1.prems" have "n = 1" by (simp add: div_eq_0_iff) 
    then show ?thesis by (simp add: bit_length.simps[of "Suc 0"] bit_length.simps[of 0])
  next
    case False
    then have pos: "0 < n div 2" by simp
    from "1.IH" "1.prems" pos have ih: "2 ^ (bit_length (n div 2) - 1) \<le> n div 2"
      "n div 2 < 2 ^ bit_length (n div 2)" by auto
    have bl: "bit_length n = Suc (bit_length (n div 2))"
      using "1.prems" by (simp add: bit_length.simps[of n])
    have blpos: "0 < bit_length (n div 2)"
      using pos by (simp add: bit_length.simps[of "n div 2"])
    then obtain k where k: "bit_length (n div 2) = Suc k" by (cases "bit_length (n div 2)") auto
    from ih k have "2 * 2 ^ k \<le> 2 * (n div 2)" by simp
    then have lo: "2 ^ (bit_length n - 1) \<le> n" using bl k by simp
    from ih(2) have "n div 2 + 1 \<le> 2 ^ bit_length (n div 2)" by simp
    then have "2 * (n div 2) + 2 \<le> 2 * 2 ^ bit_length (n div 2)" by simp
    then have hi: "n < 2 ^ bit_length n" using bl by simp
    from lo hi show ?thesis by simp
  qed
qed

lemma round_half_even_error: "\<bar>of_int (round_half_even y) - y\<bar> \<le> 1 / 2"
proof -
  have "of_int \<lfloor>y\<rfloor> \<le> y" "y < of_int \<lfloor>y\<rfloor> + 1" by linarith+
  then show ?thesis
    unfolding round_half_even_def Let_def by (simp add: abs_le_iff)
qed

lemma round_half_even_int [simp]: "round_half_even (of_int k) = k"
  by (simp add: round_half_even_def)

lemma bit_length_pos: "0 < n \<Longrightarrow> 0 < bit_length n"
  by (subst bit_length.simps) simp

lemma floor_log2_bounds:
  assumes "0 < q"
  shows "power_int 2 (floor_log2 q) \<le> q \<and> q < power_int 2 (floor_log2 q + 1)"
proof (cases "1 \<le> q")
  case True
  define n where "n = nat \<lfloor>q\<rfloor>"
  from True have fl: "1 \<le> \<lfloor>q\<rfloor>" by simp
  then have n: "0 < n" "of_nat n \<le> q" "q < of_nat n + 1"
    unfolding n_def by (simp_all add: of_nat_nat) linarith+
  from bit_length_pos[OF n(1)] obtain j where j: "bit_length n = Suc j"
    by (cases "bit_length n") auto
  from bit_length_bounds[OF n(1)] j have b: "2 ^ j \<le> n" "n < 2 ^ Suc j" by simp_all
  have f: "floor_log2 q = int j"
    using True j by (simp add: floor_log2_def n_def)
  from b(1) have "(2::rat) ^ j \<le> of_nat n"
    by (metis of_nat_le_iff of_nat_numeral of_nat_power)
  with n(2) have lo: "(2::rat) ^ j \<le> q" by linarith
  from b(2) have "n + 1 \<le> 2 ^ Suc j" by simp
  then have "(of_nat (n + 1)::rat) \<le> of_nat (2 ^ Suc j)" by (simp only: of_nat_le_iff)
  then have "(of_nat n::rat) + 1 \<le> 2 ^ Suc j" by simp
  with n(3) have hi: "q < 2 ^ Suc j" by linarith
  have "power_int (2::rat) (int j + 1) = 2 ^ Suc j"
    by (metis of_nat_Suc power_int_of_nat add.commute)
  with lo hi f show ?thesis by (simp add: power_int_of_nat)
next
  case False
  define c where "c = \<lceil>1 / q\<rceil>"
  define m where "m = nat (c - 1)"
  from False assms have "1 < 1 / q" by simp
  then have c2: "2 \<le> c" unfolding c_def by linarith
  have cq: "1 / q \<le> of_int c" "of_int c - 1 < 1 / q"
    unfolding c_def by linarith+
  from c2 have m: "0 < m" "int m = c - 1" unfolding m_def by simp_all
  from bit_length_pos[OF m(1)] obtain j where j: "bit_length m = Suc j"
    by (cases "bit_length m") auto
  from bit_length_bounds[OF m(1)] j have b: "2 ^ j \<le> m" "m < 2 ^ Suc j" by simp_all
  have f: "floor_log2 q = - int (Suc j)"
    using False j by (simp add: floor_log2_def m_def c_def)
  have mr: "(of_nat m::rat) = of_int c - 1"
    using m(2) by (metis of_int_of_nat_eq of_int_diff of_int_1)
  from b(2) have "m + 1 \<le> 2 ^ Suc j" by simp
  then have "(of_nat (m + 1)::rat) \<le> of_nat (2 ^ Suc j)" by (simp only: of_nat_le_iff)
  then have "(of_nat m::rat) + 1 \<le> 2 ^ Suc j" by simp
  with mr have "(of_int c::rat) \<le> 2 ^ Suc j" by linarith
  with cq(1) have "1 / q \<le> 2 ^ Suc j" by linarith
  then have lo: "1 / 2 ^ Suc j \<le> q"
    using assms by (simp add: field_simps)
  from b(1) have "(2::rat) ^ j \<le> of_nat m"
    by (metis of_nat_le_iff of_nat_numeral of_nat_power)
  with mr cq(2) have "(2::rat) ^ j < 1 / q" by linarith
  then have hi: "q < 1 / 2 ^ j"
    using assms by (simp add: field_simps)
  have p1: "power_int (2::rat) (- int (Suc j)) = 1 / 2 ^ Suc j"
    by (simp add: power_int_minus power_int_of_nat field_simps del: of_nat_Suc)
  have "- int (Suc j) + 1 = - int j" by simp
  then have "power_int (2::rat) (- int (Suc j) + 1) = power_int 2 (- int j)"
    by (simp only:)
  also have "\<dots> = 1 / 2 ^ j"
    by (simp add: power_int_minus power_int_of_nat field_simps)
  finally have p2: "power_int (2::rat) (- int (Suc j) + 1) = 1 / 2 ^ j" .
  from lo hi show ?thesis unfolding f p1 p2 by simp
qed

subsection \<open>Evaluation on numerals\<close>

lemma floor_rat_numeral: "\<lfloor>(numeral a :: rat) / numeral b\<rfloor> = numeral a div numeral b"
  using floor_divide_of_int_eq[of "numeral a" "numeral b", where ?'a = rat] by simp

lemma ceiling_rat_numeral:
  "\<lceil>(numeral a :: rat) / numeral b\<rceil> = - (- numeral a div numeral b)"
  using floor_divide_of_int_eq[of "- numeral a" "numeral b", where ?'a = rat]
  by (simp add: ceiling_def)

lemma bit_length_numeral: "bit_length (numeral k) = Suc (bit_length (numeral k div 2))"
  by (subst bit_length.simps) simp

lemma bit_length_0: "bit_length 0 = 0"
  by (subst bit_length.simps) simp

lemma bit_length_1: "bit_length (Suc 0) = 1" "bit_length 1 = 1"
  by (subst bit_length.simps, simp add: bit_length_0)+

lemmas float_eval = binary64_def floor_log2_def bit_length_numeral bit_length_0 bit_length_1
  round_half_even_def Let_def power_int_minus floor_rat_numeral ceiling_rat_numeral

subsection \<open>The rounding error, and the numbers that convert exactly\<close>

lemma binary64_pos_form:
  assumes "0 < q"
  shows "binary64 q = of_int (round_half_even (q / power_int 2 (max (floor_log2 q - 52) (- 1074))))
           * power_int 2 (max (floor_log2 q - 52) (- 1074))"
  using assms by (simp add: binary64_def Let_def)

lemma binary64_abs_error:
  assumes "0 < q"
  shows "\<bar>binary64 q - q\<bar> \<le> power_int 2 (max (floor_log2 q - 52) (- 1074)) / 2"
proof -
  define e where "e = max (floor_log2 q - 52) (- 1074)"
  define p where "p = power_int (2::rat) e"
  have p: "0 < p" unfolding p_def by simp
  define y where "y = q / p"
  have q: "q = y * p" using p by (simp add: y_def)
  have b: "binary64 q = of_int (round_half_even y) * p"
    using binary64_pos_form[OF assms] by (simp add: e_def p_def y_def)
  have "binary64 q - q = (of_int (round_half_even y) - y) * p"
    unfolding b by (subst q) (simp add: algebra_simps)
  then have "\<bar>binary64 q - q\<bar> = \<bar>of_int (round_half_even y) - y\<bar> * p"
    using p by (simp add: abs_mult)
  also have "\<dots> \<le> (1 / 2) * p"
    using round_half_even_error[of y] p by (intro mult_right_mono) simp_all
  finally show ?thesis by (simp add: p_def e_def)
qed

lemma floor_log2_normal:
  assumes "power_int 2 (- 1022) \<le> q"
  shows "- 1022 \<le> floor_log2 q"
proof (rule ccontr)
  assume "\<not> - 1022 \<le> floor_log2 q"
  then have "floor_log2 q + 1 \<le> - 1022" by simp
  then have "power_int (2::rat) (floor_log2 q + 1) \<le> power_int 2 (- 1022)"
    by (intro power_int_increasing) simp_all
  moreover have "0 < q"
    using assms by (rule less_le_trans[rotated]) simp
  then have "q < power_int 2 (floor_log2 q + 1)" using floor_log2_bounds by blast
  ultimately show False using assms by linarith
qed

lemma binary64_relative_error:
  assumes "power_int 2 (- 1022) \<le> q"
  shows "\<bar>binary64 q - q\<bar> \<le> q / 2 ^ 53"
proof -
  have pos: "0 < q"
    using assms by (rule less_le_trans[rotated]) simp
  from floor_log2_normal[OF assms] have e: "max (floor_log2 q - 52) (- 1074) = floor_log2 q - 52"
    by simp
  have "power_int (2::rat) (floor_log2 q - 52) = power_int 2 (floor_log2 q) / 2 ^ 52"
    by (simp add: power_int_diff)
  also have "\<dots> \<le> q / 2 ^ 52"
    using floor_log2_bounds[OF pos] by (simp add: divide_right_mono)
  finally have "power_int (2::rat) (floor_log2 q - 52) / 2 \<le> q / 2 ^ 53"
    by simp
  with binary64_abs_error[OF pos] e show ?thesis by simp
qed

lemma binary64_zero [simp]: "binary64 0 = 0"
  by (simp add: binary64_def)

lemma binary64_nonneg: "0 \<le> q \<Longrightarrow> 0 \<le> binary64 q"
proof -
  assume "0 \<le> q"
  have "0 \<le> round_half_even y" if "0 \<le> y" for y
  proof -
    from that have "0 \<le> \<lfloor>y\<rfloor>" by simp
    then show ?thesis by (simp add: round_half_even_def Let_def)
  qed
  then show ?thesis using \<open>0 \<le> q\<close>
    by (simp add: binary64_def Let_def sgn_if)
qed

lemma float_of_decimal_finite:
  assumes "q = 0 \<or> 1 / 100 \<le> q" and "q \<le> 2 ^ 1023"
  shows "float_of_decimal q = PFloat (binary64 q)"
proof (cases "q = 0")
  case True
  then show ?thesis by (simp add: float_of_decimal_def)
next
  case False
  with assms(1) have q: "1 / 100 \<le> q" by simp
  have "power_int (2::rat) (- 1022) \<le> 1 / 100"
    by (simp add: power_int_minus field_simps)
  with q have "power_int 2 (- 1022) \<le> q" by linarith
  from binary64_relative_error[OF this] have "binary64 q \<le> q + q / 2 ^ 53"
    by linarith
  also have "\<dots> \<le> 2 ^ 1023 + 2 ^ 1023 / 2 ^ 53"
    using assms(2) by (intro add_mono divide_right_mono) simp_all
  also have "\<dots> < 2 ^ 1024" by simp
  finally show ?thesis by (simp add: float_of_decimal_def Let_def)
qed

lemma binary64_of_nat:
  assumes "n < 2 ^ 53"
  shows "binary64 (of_nat n) = of_nat n"
proof (cases "n = 0")
  case True
  then show ?thesis by simp
next
  case False
  then have n: "0 < n" by simp
  from bit_length_pos[OF n] obtain j where j: "bit_length n = Suc j"
    by (cases "bit_length n") auto
  from bit_length_bounds[OF n] j have "2 ^ j \<le> n" by simp
  with assms have lt: "(2::nat) ^ j < 2 ^ 53" by linarith
  have j53: "j < 53"
  proof (rule ccontr)
    assume "\<not> j < 53"
    then have "53 \<le> j" by simp
    then have "(2::nat) ^ 53 \<le> 2 ^ j" by (intro power_increasing) simp_all
    with lt show False by linarith
  qed
  have "1 \<le> (of_nat n :: rat)" using n by simp
  then have f: "floor_log2 (of_nat n) = int j"
    using j by (simp add: floor_log2_def)
  define d where "d = 52 - j"
  have e: "max (floor_log2 (of_nat n) - 52) (- 1074) = - int d"
    using j53 by (simp add: f d_def)
  have "(of_nat n :: rat) / power_int 2 (- int d) = of_int (int (n * 2 ^ d))"
    by (simp add: power_int_minus power_int_of_nat field_simps)
  then have "round_half_even (of_nat n / power_int 2 (- int d)) = int (n * 2 ^ d)"
    by (simp only: round_half_even_int)
  moreover have "0 < (of_nat n :: rat)" using n by simp
  ultimately show ?thesis
    using binary64_pos_form[of "of_nat n"] e
    by (simp add: power_int_minus power_int_of_nat field_simps)
qed

lemma binary64_numeral:
  "numeral k < (2::nat) ^ 53 \<Longrightarrow> binary64 (numeral k) = numeral k"
  using binary64_of_nat[of "numeral k"] by simp

subsection \<open>The digits of a natural number\<close>







section \<open>The price string parser: what it returns\<close>

lemma sep_not_digit: "is_sep c \<Longrightarrow> \<not> is_digit c"
  by (auto simp: is_sep_def is_digit_def)

lemma digit_not_sep: "is_digit c \<Longrightarrow> c \<noteq> CHR ''.'' \<and> c \<noteq> CHR '',''"
  by (auto simp: is_digit_def)

lemma str_replace_empty: "str_replace c [] s = filter (\<lambda>x. x \<noteq> c) s"
  by (induction s) (auto simp: str_replace_def)

lemma match_decimal_tail:
  "tail = (case dec of None \<Rightarrow> [] | Some (c, d) \<Rightarrow> c # d) \<Longrightarrow>
   (case dec of None \<Rightarrow> True | Some (c, d) \<Rightarrow> is_sep c \<and> length d = 2 \<and> list_all is_digit d) \<Longrightarrow>
   match_groups tail = ([], tail) \<and> match_decimal tail = map_option snd dec"
  by (cases dec) (auto simp: length_Suc_conv numeral_2_eq_2)

lemma match_groups_shape:
  assumes "list_all (\<lambda>(c, g). is_sep c \<and> length g = 3 \<and> list_all is_digit g) groups"
    and "match_groups tail = ([], tail)"
  shows "match_groups (concat (map (\<lambda>(c, g). c # g) groups) @ tail)
           = (concat (map (\<lambda>(c, g). c # g) groups), tail)"
  using assms
proof (induction groups)
  case Nil
  then show ?case by simp
next
  case (Cons p groups)
  obtain c g where p: "p = (c, g)" by (cases p)
  with Cons.prems obtain a b e where g: "g = [a, b, e]"
    by (auto simp: length_Suc_conv numeral_3_eq_3)
  from Cons p g show ?case by simp
qed

lemma match_digits_shape:
  assumes "1 \<le> length ds" "length ds \<le> 3" "list_all is_digit ds"
    and "rest = [] \<or> \<not> is_digit (hd rest)"
  shows "match_digits (ds @ rest) = Some (ds, rest)"
proof -
  have "takeWhile is_digit (take (3 - length ds) rest) = []"
    using assms(4) by (cases rest; cases "3 - length ds") auto
  moreover have "takeWhile is_digit (ds @ take (3 - length ds) rest)
      = ds @ takeWhile is_digit (take (3 - length ds) rest)"
    using assms(3) by (intro takeWhile_append2) (simp add: list_all_iff)
  ultimately have "takeWhile is_digit (take 3 (ds @ rest)) = ds"
    using assms(2) by simp
  with assms(1) show ?thesis
    by (auto simp: match_digits_def Let_def)
qed

lemma re_search_match_at: "match_at s = Some m \<Longrightarrow> re_search s = Some m"
  by (cases s) auto

lemma rest_head:
  assumes "list_all (\<lambda>(c, g). is_sep c \<and> length g = 3 \<and> list_all is_digit g) groups"
    and "(case dec of None \<Rightarrow> True | Some (c, d) \<Rightarrow> is_sep c \<and> length d = 2 \<and> list_all is_digit d)"
    and "rest = concat (map (\<lambda>(c, g). c # g) groups) @ (case dec of None \<Rightarrow> [] | Some (c, d) \<Rightarrow> c # d)"
  shows "rest = [] \<or> \<not> is_digit (hd rest)"
  using assms by (cases groups; cases dec) (auto simp: sep_not_digit)

lemma re_search_shape:
  assumes "price_shape ds groups dec"
  shows "re_search (price_string ds groups dec)
           = Some (ds @ concat (map (\<lambda>(c, g). c # g) groups), map_option snd dec)"
proof -
  let ?tail = "case dec of None \<Rightarrow> [] | Some (c, d) \<Rightarrow> c # d"
  let ?gs = "concat (map (\<lambda>(c, g). c # g) groups)"
  from assms have t: "match_groups ?tail = ([], ?tail)" "match_decimal ?tail = map_option snd dec"
    using match_decimal_tail[of ?tail dec] by (auto simp: price_shape_def)
  from assms have g: "match_groups (?gs @ ?tail) = (?gs, ?tail)"
    using match_groups_shape[OF _ t(1)] by (simp add: price_shape_def)
  from assms have d: "match_digits (ds @ ?gs @ ?tail) = Some (ds, ?gs @ ?tail)"
    by (intro match_digits_shape rest_head[of groups dec]) (auto simp: price_shape_def)
  have "match_at (price_string ds groups dec) = Some (ds @ ?gs, map_option snd dec)"
    by (simp add: match_at_def price_string_def d g t)
  then show ?thesis by (rule re_search_match_at)
qed

lemma filter_seps_digits:
  "list_all is_digit xs \<Longrightarrow> filter (\<lambda>x. x \<noteq> CHR '','' \<and> x \<noteq> CHR ''.'') xs = xs"
  by (induction xs) (auto dest: digit_not_sep)

lemma filter_seps_groups:
  "list_all (\<lambda>(c, g). is_sep c \<and> length g = 3 \<and> list_all is_digit g) groups \<Longrightarrow>
   filter (\<lambda>x. x \<noteq> CHR '','' \<and> x \<noteq> CHR ''.'') (concat (map (\<lambda>(c, g). c # g) groups))
     = concat (map snd groups)"
  by (induction groups) (auto simp: filter_seps_digits is_sep_def)

lemma strip_seps_shape:
  assumes "list_all is_digit ds"
    and "list_all (\<lambda>(c, g). is_sep c \<and> length g = 3 \<and> list_all is_digit g) groups"
  shows "str_replace (CHR ''.'') [] (str_replace (CHR '','') [] (ds @ concat (map (\<lambda>(c, g). c # g) groups)))
           = ds @ concat (map snd groups)"
  using assms by (simp add: str_replace_empty filter_seps_digits filter_seps_groups)

lemma digits_concat:
  "list_all is_digit ds \<Longrightarrow> list_all (\<lambda>(c, g). is_sep c \<and> length g = 3 \<and> list_all is_digit g) groups
   \<Longrightarrow> list_all is_digit (ds @ concat (map snd groups))"
  by (induction groups) (auto simp: list_all_iff)

lemma no_digit_match_at: "\<not> is_digit c \<Longrightarrow> match_at (c # cs) = None"
  by (simp add: match_at_def match_digits_def)

lemma re_search_no_digit: "list_all (\<lambda>c. \<not> is_digit c) s \<Longrightarrow> re_search s = None"
  by (induction s) (auto simp: no_digit_match_at match_at_def match_digits_def)

lemma py_float_decimal:
  assumes "list_all is_digit num"
  shows "py_float (num @ ''.'' @ d) =
     float_of_decimal (of_nat (nat_of_digits num) + of_nat (nat_of_digits d) / 10 ^ length d)"
proof -
  have "takeWhile (\<lambda>c. c \<noteq> CHR ''.'') (num @ CHR ''.'' # d) = num"
    using assms by (induction num) (auto dest: digit_not_sep)
  then show ?thesis by (simp add: py_float_def Let_def)
qed

lemma price_decimal_string_shape:
  assumes "price_shape ds groups dec"
  shows "price_decimal_string (price_string ds groups dec) =
     Some (ds @ concat (map snd groups) @ ''.'' @ (case dec of None \<Rightarrow> ''00'' | Some (c, d) \<Rightarrow> d))"
  using assms strip_seps_shape[of ds groups]
  by (cases dec) (auto simp: price_decimal_string_def re_search_shape price_shape_def)

lemma price_to_float_shape:
  assumes "price_shape ds groups dec"
  shows "price_to_float (price_string ds groups dec) =
     Some (float_of_decimal (price_number ds groups dec))"
proof -
  let ?num = "ds @ concat (map snd groups)"
  let ?cents = "case dec of None \<Rightarrow> ''00'' | Some (c, d) \<Rightarrow> d"
  from assms have num: "list_all is_digit ?num"
    by (intro digits_concat) (auto simp: price_shape_def)
  from assms have len: "length ?cents = 2"
    by (cases dec) (auto simp: price_shape_def)
  from price_decimal_string_shape[OF assms]
  have "price_decimal_string (price_string ds groups dec) = Some (?num @ ''.'' @ ?cents)"
    by simp
  then show ?thesis
    using py_float_decimal[OF num, of ?cents] len
    by (simp add: price_to_float_def price_number_def)
qed

lemma price_number_range: "price_number ds groups dec = 0 \<or> 1 / 100 \<le> price_number ds groups dec"
proof -
  define k where "k = 100 * nat_of_digits (ds @ concat (map snd groups)) +
      nat_of_digits (case dec of None \<Rightarrow> ''00'' | Some (c, d) \<Rightarrow> d)"
  have q: "price_number ds groups dec = of_nat k / 100"
    by (simp add: price_number_def k_def)
  show ?thesis
  proof (cases "k = 0")
    case True
    with q show ?thesis by simp
  next
    case False
    then have "(1::rat) \<le> of_nat k" by simp
    with q show ?thesis by simp
  qed
qed

lemma price_number_error:
  "\<bar>binary64 (price_number ds groups dec) - price_number ds groups dec\<bar>
     \<le> price_number ds groups dec / 2 ^ 53"
proof -
  from price_number_range[of ds groups dec] show ?thesis
  proof
    assume "price_number ds groups dec = 0"
    then show ?thesis by simp
  next
    assume q: "1 / 100 \<le> price_number ds groups dec"
    have "power_int (2::rat) (- 1022) \<le> 1 / 100"
      by (simp add: power_int_minus field_simps)
    with q have "power_int 2 (- 1022) \<le> price_number ds groups dec" by linarith
    then show ?thesis by (rule binary64_relative_error)
  qed
qed



text \<open>
  C4, as stated, fails for long prices. The parser returns a float, and a float has 53
  significant bits: the string 9,007,199,254,740,993.01 has the shape of the claim, the
  number of the claim is 9007199254740993.01, and the float returned is
  9007199254740994.0, whose integer part is not the digits of the string.
\<close>

theorem price_to_float_long_price_counterexample:
  "price_shape ''9''
     [(CHR '','', ''007''), (CHR '','', ''199''), (CHR '','', ''254''), (CHR '','', ''740''),
      (CHR '','', ''993'')] (Some (CHR ''.'', ''01'')) \<and>
   price_string ''9''
     [(CHR '','', ''007''), (CHR '','', ''199''), (CHR '','', ''254''), (CHR '','', ''740''),
      (CHR '','', ''993'')] (Some (CHR ''.'', ''01'')) = ''9,007,199,254,740,993.01'' \<and>
   price_number ''9''
     [(CHR '','', ''007''), (CHR '','', ''199''), (CHR '','', ''254''), (CHR '','', ''740''),
      (CHR '','', ''993'')] (Some (CHR ''.'', ''01'')) = 900719925474099301 / 100 \<and>
   price_to_float ''9,007,199,254,740,993.01'' = Some (PFloat 9007199254740994) \<and>
   PFloat 9007199254740994 \<noteq> PFloat (900719925474099301 / 100)"
proof -
  have a: "price_shape ''9''
     [(CHR '','', ''007''), (CHR '','', ''199''), (CHR '','', ''254''), (CHR '','', ''740''),
      (CHR '','', ''993'')] (Some (CHR ''.'', ''01''))"
    by (simp add: price_shape_def is_digit_def is_sep_def)
  have b: "price_string ''9''
     [(CHR '','', ''007''), (CHR '','', ''199''), (CHR '','', ''254''), (CHR '','', ''740''),
      (CHR '','', ''993'')] (Some (CHR ''.'', ''01'')) = ''9,007,199,254,740,993.01''"
    by (simp add: price_string_def)
  have c: "price_number ''9''
     [(CHR '','', ''007''), (CHR '','', ''199''), (CHR '','', ''254''), (CHR '','', ''740''),
      (CHR '','', ''993'')] (Some (CHR ''.'', ''01'')) = 900719925474099301 / 100"
    by (simp add: price_number_def nat_of_digits_def digit_val_def)
  have d: "price_decimal_string ''9,007,199,254,740,993.01'' = Some ''9007199254740993.01''"
    by (simp add: price_decimal_string_def match_at_def match_digits_def is_digit_def
        is_sep_def str_replace_def Let_def)
  have e: "py_float ''9007199254740993.01'' = float_of_decimal (900719925474099301 / 100)"
    by (simp add: py_float_def nat_of_digits_def digit_val_def Let_def)
  have f: "binary64 (900719925474099301 / 100) = 9007199254740994"
    by (simp add: float_eval)
  have g: "float_of_decimal (900719925474099301 / 100) = PFloat 9007199254740994"
    by (simp add: float_of_decimal_def f)
  have h: "price_to_float ''9,007,199,254,740,993.01'' = Some (PFloat 9007199254740994)"
    by (simp add: price_to_float_def d e g)
  from a b c h show ?thesis by simp
qed

text \<open>
  C4, amended. A price string of the shape of the specification (one to three digits,
  groups of a separator and three digits, optionally a separator and two digits) is
  handed to \<^verbatim>\<open>float\<close> as the decimal numeral of the number whose integer part is the
  leading digits and the groups written one after the other, whichever separators stood
  between them, and whose cents are the final two digits, or 00 when there is no such
  final part; the parser returns the float that this number converts to. Up to the 1023rd
  power of two that float is finite, it is the binary64 value nearest to the number, and
  it differs from the number by at most the number times 2 to the power -53.
\<close>

theorem price_to_float_of_price_shape:
  assumes "price_shape ds groups dec"
  shows "price_decimal_string (price_string ds groups dec) =
       Some (ds @ concat (map snd groups) @ ''.'' @
             (case dec of None \<Rightarrow> ''00'' | Some (c, d) \<Rightarrow> d)) \<and>
     price_to_float (price_string ds groups dec) =
       Some (float_of_decimal (price_number ds groups dec)) \<and>
     (price_number ds groups dec \<le> 2 ^ 1023 \<longrightarrow>
        price_to_float (price_string ds groups dec) =
          Some (PFloat (binary64 (price_number ds groups dec))) \<and>
        \<bar>binary64 (price_number ds groups dec) - price_number ds groups dec\<bar>
          \<le> price_number ds groups dec / 2 ^ 53)"
proof -
  have "price_to_float (price_string ds groups dec) =
      Some (PFloat (binary64 (price_number ds groups dec)))"
    if "price_number ds groups dec \<le> 2 ^ 1023"
    using price_to_float_shape[OF assms] price_number_range[of ds groups dec] that
    by (simp add: float_of_decimal_finite)
  with price_decimal_string_shape[OF assms] price_to_float_shape[OF assms]
    price_number_error[of ds groups dec]
  show ?thesis by simp
qed

text \<open>
  The three strings the claim names: 1.234,56 and 1,234.56 give the float nearest to
  1234.56, and 1,234 gives 1234.0.
\<close>

theorem price_to_float_of_price_shape_witness:
  "price_shape ''1'' [(CHR ''.'', ''234'')] (Some (CHR '','', ''56'')) \<and>
   price_decimal_string ''1.234,56'' = Some ''1234.56'' \<and>
   price_to_float ''1.234,56'' = Some (PFloat (binary64 (123456 / 100))) \<and>
   price_shape ''1'' [(CHR '','', ''234'')] (Some (CHR ''.'', ''56'')) \<and>
   price_to_float ''1,234.56'' = Some (PFloat (binary64 (123456 / 100))) \<and>
   \<bar>binary64 (123456 / 100) - 123456 / 100\<bar> \<le> (123456 / 100) / 2 ^ 53 \<and>
   price_shape ''1'' [(CHR '','', ''234'')] None \<and>
   price_to_float ''1,234'' = Some (PFloat 1234)"
proof -
  have a: "price_shape ''1'' [(CHR ''.'', ''234'')] (Some (CHR '','', ''56''))"
    by (simp add: price_shape_def is_digit_def is_sep_def)
  have b: "price_shape ''1'' [(CHR '','', ''234'')] (Some (CHR ''.'', ''56''))"
    by (simp add: price_shape_def is_digit_def is_sep_def)
  have c: "price_shape ''1'' [(CHR '','', ''234'')] None"
    by (simp add: price_shape_def is_digit_def is_sep_def)
  have n: "price_number ''1'' [(CHR ''.'', ''234'')] (Some (CHR '','', ''56'')) = 123456 / 100"
    "price_number ''1'' [(CHR '','', ''234'')] (Some (CHR ''.'', ''56'')) = 123456 / 100"
    "price_number ''1'' [(CHR '','', ''234'')] None = 1234"
    by (simp_all add: price_number_def nat_of_digits_def digit_val_def)
  have s: "price_string ''1'' [(CHR ''.'', ''234'')] (Some (CHR '','', ''56'')) = ''1.234,56''"
    "price_string ''1'' [(CHR '','', ''234'')] (Some (CHR ''.'', ''56'')) = ''1,234.56''"
    "price_string ''1'' [(CHR '','', ''234'')] None = ''1,234''"
    by (simp_all add: price_string_def)
  have w: "binary64 1234 = 1234"
    using binary64_of_nat[of 1234] by simp
  show ?thesis
    using a b c
      price_to_float_of_price_shape[OF a]
      price_to_float_of_price_shape[OF b]
      price_to_float_of_price_shape[OF c]
    unfolding n s by (simp add: w float_of_decimal_finite)
qed




section \<open>The decorators and the facade\<close>

lemmas sig_defs = get_overview_sig_def get_overviews_sig_def get_overviews_from_dict_sig_def
  get_prices_sig_def get_lowest_price_sig_def get_median_price_sig_def get_price_sig_def
  get_volume_sig_def init_sig_def item_parameters_def item_annotations_def
  app_id_type_def currency_type_def

lemmas decorator_defs = decorated_def typechecked_def sanitized_def call_function_def
  bind_params_def param_names_def sanitize_param_names_def sanitize_value_def SANITIZE_FUNCS_def
  unpack2_def unpack3_def unpack4_def unpack5_def

lemmas parser_defs = Market_price_to_float_def price_to_float_def price_decimal_string_def
  match_at_def match_digits_def is_digit_def is_sep_def str_replace_def py_float_def
  nat_of_digits_def digit_val_def Let_def float_of_decimal_finite binary64_numeral

lemmas int_defs = int_of_str_def str_strip_def is_space_def is_digit_def nat_of_digits_def
  digit_val_def str_replace_def volume_to_int_def

subsection \<open>The order of the two decorators\<close>

lemma facade_decorated:
  "facade ext self op = decorated ext (signature_of op) (body_of ext self op)"
  by (cases op)
     (simp_all add: get_overview_def get_overviews_def get_overviews_from_dict_def get_prices_def
        get_lowest_price_def get_median_price_def get_price_def get_volume_def)

lemma facade_pipeline:
  "facade ext self op args kwargs =
     (case typecheck_args (annotations (signature_of op)) (param_names (signature_of op)) args of
        Inl e \<Rightarrow> Inl e
      | Inr u \<Rightarrow>
          (case typecheck_kwargs (annotations (signature_of op)) kwargs of
             Inl e \<Rightarrow> Inl e
           | Inr u' \<Rightarrow>
               sanitized (Language_from_string ext) (signature_of op)
                 (call_function (signature_of op) (body_of ext self op)) args kwargs))"
  by (simp add: facade_decorated decorated_def typechecked_def)

lemma typecheck_currency_None: "typecheck_value PNone currency_type = Inr False"
  by (simp add: currency_type_def)

lemma typecheck_currency_int_str:
  "typecheck_value (PInt n) currency_type = Inr True"
  "typecheck_value (PStr s) currency_type = Inr True"
  by (simp_all add: currency_type_def)

lemma currency_annotation:
  "op \<noteq> Get_volume \<Longrightarrow>
     map_of (annotations (signature_of op)) ''currency'' = Some currency_type"
  by (cases op) (simp_all add: sig_defs)

subsection \<open>What the sanitizing wrapper passes on\<close>

lemma sanitize_args_nth:
  "sanitize_args lang names args = Inr args' \<Longrightarrow> i < length args \<Longrightarrow>
     i < length names \<and> length args' = length args \<and>
     (if names ! i \<in> set (sanitize_param_names lang)
      then sanitize_value lang (args ! i) (names ! i) else Inr (args ! i)) = Inr (args' ! i)"
proof (induction lang names args arbitrary: args' i rule: sanitize_args.induct)
  case (1 lang names)
  then show ?case by simp
next
  case (2 lang arg args)
  then show ?case by simp
next
  case (3 lang arg_name names arg args)
  from "3.prems"(1) obtain a' as' where
    a: "(if arg_name \<in> set (sanitize_param_names lang) then sanitize_value lang arg arg_name
         else Inr arg) = Inr a'"
    and as: "sanitize_args lang names args = Inr as'" and r: "args' = a' # as'"
    by (auto split: sum.splits)
  show ?case
  proof (cases i)
    case 0
    with a as r "3.IH"[OF a as] show ?thesis
      by (cases args) (auto split: if_splits)
  next
    case (Suc j)
    with "3.prems"(2) have "j < length args" by simp
    from "3.IH"[OF a as this] Suc r show ?thesis by (auto split: if_splits)
  qed
qed

lemma sanitize_kwargs_nth:
  "sanitize_kwargs lang kwargs = Inr kwargs' \<Longrightarrow> i < length kwargs \<Longrightarrow>
     length kwargs' = length kwargs \<and> fst (kwargs' ! i) = fst (kwargs ! i) \<and>
     (if fst (kwargs ! i) \<in> set (sanitize_param_names lang)
      then sanitize_value lang (snd (kwargs ! i)) (fst (kwargs ! i))
      else Inr (snd (kwargs ! i))) = Inr (snd (kwargs' ! i))"
proof (induction lang kwargs arbitrary: kwargs' i rule: sanitize_kwargs.induct)
  case (1 lang)
  then show ?case by simp
next
  case (2 lang kwarg_name kwarg_value kwargs)
  from "2.prems"(1) obtain v' kw' where
    v: "(if kwarg_name \<in> set (sanitize_param_names lang)
         then sanitize_value lang kwarg_value kwarg_name else Inr kwarg_value) = Inr v'"
    and kw: "sanitize_kwargs lang kwargs = Inr kw'" and r: "kwargs' = (kwarg_name, v') # kw'"
    by (auto split: sum.splits)
  show ?case
  proof (cases i)
    case 0
    with v kw r "2.IH"[OF v kw] show ?thesis
      by (cases kwargs) (auto split: if_splits)
  next
    case (Suc j)
    with "2.prems"(2) have "j < length kwargs" by simp
    from "2.IH"[OF v kw this] Suc r show ?thesis by (auto split: if_splits)
  qed
qed

lemma name_parameters_are_sanitized:
  "''market_hash_name'' \<in> set (sanitize_param_names lang)"
  "''market_hash_names'' \<in> set (sanitize_param_names lang)"
  by (simp_all add: sanitize_param_names_def SANITIZE_FUNCS_def)

lemma sanitize_value_name:
  "sanitize_value lang v ''market_hash_name'' = Inr w \<Longrightarrow>
     \<exists>n. v = PStr n \<and> w = PStr (str_replace (CHR ''/'') ''-'' n)"
  by (cases v)
     (auto simp: sanitize_value_def SANITIZE_FUNCS_def sanitize_market_hash_name_value_def)

lemma map_result_names:
  "map_result sanitize_market_hash_name_value xs = Inr ys \<Longrightarrow>
     \<exists>ns. xs = map PStr ns \<and> ys = map (\<lambda>n. PStr (str_replace (CHR ''/'') ''-'' n)) ns"
proof (induction xs arbitrary: ys)
  case Nil
  then show ?case by simp
next
  case (Cons x xs)
  from Cons.prems obtain y ys' where
    x: "sanitize_market_hash_name_value x = Inr y"
    and xs: "map_result sanitize_market_hash_name_value xs = Inr ys'" and r: "ys = y # ys'"
    by (auto split: sum.splits)
  from x obtain n where n: "x = PStr n" "y = PStr (str_replace (CHR ''/'') ''-'' n)"
    by (cases x) (auto simp: sanitize_market_hash_name_value_def)
  from Cons.IH[OF xs] obtain ns where
    ns: "xs = map PStr ns" "ys' = map (\<lambda>n. PStr (str_replace (CHR ''/'') ''-'' n)) ns"
    by blast
  have "x # xs = map PStr (n # ns) \<and>
        ys = map (\<lambda>n. PStr (str_replace (CHR ''/'') ''-'' n)) (n # ns)"
    using n ns r by simp
  then show ?case by (rule exI[of _ "n # ns"])
qed

lemma sanitize_value_names:
  "sanitize_value lang v ''market_hash_names'' = Inr w \<Longrightarrow>
     \<exists>ns. py_iter v = Inr (map PStr ns) \<and>
          w = PList (map (\<lambda>n. PStr (str_replace (CHR ''/'') ''-'' n)) ns)"
proof -
  assume a: "sanitize_value lang v ''market_hash_names'' = Inr w"
  then obtain xs ys where xs: "py_iter v = Inr xs"
    and ys: "map_result sanitize_market_hash_name_value xs = Inr ys" and w: "w = PList ys"
    by (auto simp: sanitize_value_def SANITIZE_FUNCS_def sanitize_market_hash_names_value_def
        map_sum_def split: sum.splits)
  from map_result_names[OF ys] xs w show ?thesis by blast
qed

lemma str_replace_slash:
  "CHR ''/'' \<notin> set (str_replace (CHR ''/'') ''-'' n)"
  "str_replace (CHR ''/'') ''-'' n = map (\<lambda>c. if c = CHR ''/'' then CHR ''-'' else c) n"
  by (induction n) (auto simp: str_replace_def)

subsection \<open>Calls with the required arguments only\<close>

lemma sanitize_app_id_int: "sanitize_app_id_value (PInt a) = Inr (PInt a)"
  by (simp add: sanitize_app_id_value_def)

lemma sanitize_name:
  "sanitize_market_hash_name_value (PStr n) = Inr (PStr (str_replace (CHR ''/'') ''-'' n))"
  by (simp add: sanitize_market_hash_name_value_def)

lemma get_overview_positional:
  "get_overview ext self [PInt a, PStr n] [] =
     get_overview_body ext self (PInt a) (PStr (str_replace (CHR ''/'') ''-'' n)) (PBool True) PNone"
  by (simp add: get_overview_def decorator_defs sig_defs sanitize_app_id_int sanitize_name)

lemma get_prices_positional:
  "get_prices ext self [PInt a, PStr n] [] =
     get_prices_body ext self (PInt a) (PStr (str_replace (CHR ''/'') ''-'' n)) (PBool True) PNone"
  by (simp add: get_prices_def decorator_defs sig_defs sanitize_app_id_int sanitize_name)

lemma get_lowest_price_positional:
  "get_lowest_price ext self [PInt a, PStr n] [] =
     get_lowest_price_body ext self (PInt a) (PStr (str_replace (CHR ''/'') ''-'' n))
       (PBool True) PNone"
  by (simp add: get_lowest_price_def decorator_defs sig_defs sanitize_app_id_int sanitize_name)

lemma get_median_price_positional:
  "get_median_price ext self [PInt a, PStr n] [] =
     get_median_price_body ext self (PInt a) (PStr (str_replace (CHR ''/'') ''-'' n))
       (PBool True) PNone"
  by (simp add: get_median_price_def decorator_defs sig_defs sanitize_app_id_int sanitize_name)

lemma get_price_positional:
  "get_price ext self [PInt a, PStr n, PStr p] [] =
     (if PStr p \<in> set valid_price_types
      then get_price_body ext self (PInt a) (PStr (str_replace (CHR ''/'') ''-'' n))
             (PTuple [PStr p]) (PBool True) PNone
      else Inl ValueError)"
  by (simp add: get_price_def decorator_defs sig_defs sanitize_app_id_int sanitize_name
      sanitize_price_type_value_def)

lemma typecheck_all_strs: "typecheck_all (map PStr ns) (T_class C_str) = Inr True"
  by (induction ns) auto

lemma sanitize_names:
  "map_result sanitize_market_hash_name_value (map PStr ns) =
     Inr (map (\<lambda>n. PStr (str_replace (CHR ''/'') ''-'' n)) ns)"
  by (induction ns) (auto simp: sanitize_name)

lemma get_overviews_positional:
  "get_overviews ext self [PInt a, PList (map PStr ns)] [] =
     get_overviews_body ext self (PInt a)
       (PList (map (\<lambda>n. PStr (str_replace (CHR ''/'') ''-'' n)) ns)) (PBool True) PNone"
  by (simp add: get_overviews_def decorator_defs sig_defs sanitize_app_id_int
      sanitize_market_hash_names_value_def sanitize_names typecheck_all_strs)

lemma get_overviews_from_dict_positional:
  "typecheck_value items_dict (T_dict app_id_type (T_list (T_class C_str))) = Inr True \<Longrightarrow>
   get_overviews_from_dict ext self [items_dict] [] =
     get_overviews_from_dict_body ext self items_dict (PBool True) PNone"
  by (simp add: get_overviews_from_dict_def decorator_defs sig_defs)

subsection \<open>What a body asks of the remote side when it is given no currency\<close>

lemma py_or_None: "py_or PNone x = x"
  by (simp add: py_or_def)

lemma py_or_same: "py_or x x = x"
  by (simp add: py_or_def)

lemma batch_item_requested:
  "batch_item ext self (PBool True) PNone app_id name =
     (case request_overview ext app_id name (self_currency self) False of
        Inl e \<Rightarrow> Inl e
      | Inr data \<Rightarrow> overview_type_converter (overview_value data) None)"
  by (simp add: batch_item_def py_or_None split: sum.splits)

lemma get_overviews_loop_requested:
  "get_overviews_loop ext self (PBool True) PNone result
       (zip names (replicate (length names) app_id)) =
     map_sum id PDict (requested_batch ext (self_currency self) app_id result names)"
  by (induction names arbitrary: result)
     (auto simp: batch_item_requested split: sum.splits)

lemma get_overviews_body_requested:
  "get_overviews_body ext self (PInt a) (PList names) (PBool True) PNone =
     map_sum id PDict (requested_batch ext (self_currency self) (PInt a) [] names)"
  by (simp add: get_overviews_body_def get_overviews_loop_requested)

lemma from_dict_names_requested:
  "from_dict_names ext self (PBool True) PNone app_id result names =
     requested_batch ext (self_currency self) app_id result names"
  by (induction names arbitrary: result)
     (auto simp: batch_item_requested split: sum.splits)

lemma from_dict_items_requested:
  "from_dict_items ext self (PBool True) PNone result
       (map (\<lambda>(app_id, names). (app_id, PList names)) groups) =
     map_sum id PDict (requested_groups ext (self_currency self) result groups)"
  by (induction groups arbitrary: result)
     (auto simp: from_dict_names_requested split: sum.splits)

lemma typecheck_all_items_groups:
  "typecheck_all_items (map (\<lambda>(a, ns). (PInt a, PList (map PStr ns))) groups)
     app_id_type (T_list (T_class C_str)) = Inr True"
  by (induction groups) (auto simp: app_id_type_def typecheck_all_strs)

lemma get_overviews_from_dict_requested:
  "get_overviews_from_dict ext self
       [PDict (map (\<lambda>(a, ns). (PInt a, PList (map PStr ns))) groups)] [] =
     map_sum id PDict (requested_groups ext (self_currency self) []
       (map (\<lambda>(a, ns). (PInt a, map PStr ns)) groups))"
proof -
  have m: "map (\<lambda>(a, ns). (PInt a, PList (map PStr ns))) groups =
      map (\<lambda>(app_id, names). (app_id, PList names))
        (map (\<lambda>(a, ns). (PInt a, map PStr ns)) groups)"
    by (induction groups) auto
  have "get_overviews_from_dict ext self
       [PDict (map (\<lambda>(a, ns). (PInt a, PList (map PStr ns))) groups)] [] =
     get_overviews_from_dict_body ext self
       (PDict (map (\<lambda>(a, ns). (PInt a, PList (map PStr ns))) groups)) (PBool True) PNone"
    by (rule get_overviews_from_dict_positional) (simp add: typecheck_all_items_groups)
  also have "\<dots> = map_sum id PDict (requested_groups ext (self_currency self) []
       (map (\<lambda>(a, ns). (PInt a, map PStr ns)) groups))"
    unfolding get_overviews_from_dict_body_def m
    by (simp only: py_items.simps sum.case from_dict_items_requested)
  finally show ?thesis .
qed

lemma typecheck_kwargs_append:
  "typecheck_kwargs ann (kw1 @ kw2) =
     (case typecheck_kwargs ann kw1 of Inl e \<Rightarrow> Inl e | Inr u \<Rightarrow> typecheck_kwargs ann kw2)"
  by (induction kw1) (auto split: option.splits sum.splits)

lemma typecheck_args_currency_None:
  "map_of ann ''currency'' = Some currency_type \<Longrightarrow>
   typecheck_args ann names pre = Inr () \<Longrightarrow>
   length pre < length names \<Longrightarrow> names ! length pre = ''currency'' \<Longrightarrow>
     typecheck_args ann names (pre @ PNone # post) = Inl TypeError"
proof (induction ann names pre rule: typecheck_args.induct)
  case (1 ann names)
  then show ?case by (cases names) (auto simp: typecheck_currency_None)
next
  case (2 ann arg args)
  then show ?case by simp
next
  case (3 ann arg_name names arg args)
  then show ?case by (auto split: option.splits sum.splits if_splits)
qed

lemma currency_None_keyword:
  assumes "op \<noteq> Get_volume"
    and "typecheck_args (annotations (signature_of op)) (param_names (signature_of op)) args = Inr ()"
    and "typecheck_kwargs (annotations (signature_of op)) kw1 = Inr ()"
  shows "facade ext self op args (kw1 @ (''currency'', PNone) # kw2) = Inl TypeError"
  using assms
  by (simp add: facade_decorated decorated_def typechecked_def typecheck_kwargs_append
      typecheck_currency_None currency_annotation)

lemma currency_None_positional:
  assumes "op \<noteq> Get_volume"
    and "typecheck_args (annotations (signature_of op)) (param_names (signature_of op)) pre = Inr ()"
    and "length pre < length (param_names (signature_of op))"
    and "param_names (signature_of op) ! length pre = ''currency''"
  shows "facade ext self op (pre @ PNone # post) kwargs = Inl TypeError"
  using assms
    typecheck_args_currency_None[OF currency_annotation[OF assms(1)] assms(2) assms(3) assms(4)]
  by (simp add: facade_decorated decorated_def typechecked_def)

section \<open>The claims about the facade\<close>

text \<open>
  C2, as stated, fails. The claim: sanitization runs before type validation, so any
  input a sanitizer accepts passes validation after coercion. The string 730 is
  accepted by the sanitizer of \<^verbatim>\<open>app_id\<close>, which turns it into the integer 730, and the
  integer 730 matches the annotation; yet the call raises \<^verbatim>\<open>TypeError\<close>, because the
  validator is the outer decorator and sees the string. With the integer the same call
  returns the overview.
\<close>

theorem sanitize_before_typecheck_counterexample:
  "sanitize_value (Language_from_string one_item_remote) (PStr ''730'') ''app_id'' = Inr (PInt 730) \<and>
   typecheck_value (PInt 730) app_id_type = Inr True \<and>
   typecheck_value (PStr ''730'') app_id_type = Inr False \<and>
   get_overview one_item_remote default_market [PStr ''730'', PStr ''known''] [] = Inl TypeError \<and>
   get_overview one_item_remote default_market [PInt 730, PStr ''known''] [] =
     Inr (PDict [(PStr ''success'', PBool True), (PStr ''lowest_price'', PFloat (binary64 (123456 / 100))),
        (PStr ''volume'', PInt 1024), (PStr ''median_price'', PFloat 1200)])"
proof -
  have a: "sanitize_value (Language_from_string one_item_remote) (PStr ''730'') ''app_id''
      = Inr (PInt 730)"
    by (simp add: decorator_defs sanitize_app_id_value_def int_defs)
  have b: "typecheck_value (PInt 730) app_id_type = Inr True"
    "typecheck_value (PStr ''730'') app_id_type = Inr False"
    by (simp_all add: app_id_type_def)
  have c: "get_overview one_item_remote default_market [PStr ''730'', PStr ''known''] []
      = Inl TypeError"
    by (simp add: get_overview_def decorator_defs sig_defs)
  have d: "get_overview one_item_remote default_market [PInt 730, PStr ''known''] [] =
     Inr (PDict [(PStr ''success'', PBool True), (PStr ''lowest_price'', PFloat (binary64 (123456 / 100))),
        (PStr ''volume'', PInt 1024), (PStr ''median_price'', PFloat 1200)])"
    by (simp add: get_overview_positional get_overview_body_def one_item_remote_def
        default_market_def overview_value_def overview_type_converter_def known_overview_def
        py_or_def parser_defs int_defs)
  from a b c d show ?thesis by simp
qed

text \<open>
  C2, amended. For every public operation of the facade, and for the constructor, type
  validation comes first and checks the arguments as the caller passed them; the
  sanitizers run afterwards, on a call that passed validation, and their results go to
  the body. A plain integer or string for a currency passes validation because the
  annotation of \<^verbatim>\<open>currency\<close> is the union of the two enumerations, \<^verbatim>\<open>int\<close> and \<^verbatim>\<open>str\<close>.
\<close>

theorem facade_typechecks_then_sanitizes:
  "facade ext self op args kwargs =
     (case typecheck_args (annotations (signature_of op)) (param_names (signature_of op)) args of
        Inl e \<Rightarrow> Inl e
      | Inr u \<Rightarrow>
          (case typecheck_kwargs (annotations (signature_of op)) kwargs of
             Inl e \<Rightarrow> Inl e
           | Inr u' \<Rightarrow>
               sanitized (Language_from_string ext) (signature_of op)
                 (call_function (signature_of op) (body_of ext self op)) args kwargs)) \<and>
   Market_init ext args kwargs =
     (case typecheck_args (annotations init_sig) (param_names init_sig) args of
        Inl e \<Rightarrow> Inl e
      | Inr u \<Rightarrow>
          (case typecheck_kwargs (annotations init_sig) kwargs of
             Inl e \<Rightarrow> Inl e
           | Inr u' \<Rightarrow>
               sanitized (Language_from_string ext) init_sig
                 (call_function init_sig (unpack2 init_body)) args kwargs)) \<and>
   (op \<noteq> Get_volume \<longrightarrow>
      map_of (annotations (signature_of op)) ''currency'' = Some currency_type) \<and>
   map_of (annotations init_sig) ''currency'' = Some currency_type \<and>
   typecheck_value (PInt n) currency_type = Inr True \<and>
   typecheck_value (PStr s) currency_type = Inr True"
proof -
  have "Market_init ext args kwargs =
     (case typecheck_args (annotations init_sig) (param_names init_sig) args of
        Inl e \<Rightarrow> Inl e
      | Inr u \<Rightarrow>
          (case typecheck_kwargs (annotations init_sig) kwargs of
             Inl e \<Rightarrow> Inl e
           | Inr u' \<Rightarrow>
               sanitized (Language_from_string ext) init_sig
                 (call_function init_sig (unpack2 init_body)) args kwargs))"
    by (simp add: Market_init_def decorated_def typechecked_def)
  moreover have "map_of (annotations init_sig) ''currency'' = Some currency_type"
    by (simp add: init_sig_def)
  ultimately show ?thesis
    using facade_pipeline[of ext self op args kwargs] currency_annotation[of op]
      typecheck_currency_int_str(1)[of n] typecheck_currency_int_str(2)[of s]
    by simp
qed

theorem facade_typechecks_then_sanitizes_witness:
  "facade one_item_remote default_market Get_overview [PStr ''730'', PStr ''known''] [] =
     Inl TypeError \<and>
   Market_init one_item_remote [PNone] [] = Inl TypeError \<and>
   Get_overview \<noteq> Get_volume \<and>
   map_of (annotations (signature_of Get_overview)) ''currency'' = Some currency_type \<and>
   typecheck_value (PInt 1) currency_type = Inr True \<and>
   typecheck_value (PStr ''USD'') currency_type = Inr True"
  using facade_typechecks_then_sanitizes[of one_item_remote default_market Get_overview
      "[PStr ''730'', PStr ''known'']" "[]" 1 "''USD''"]
    facade_typechecks_then_sanitizes[of one_item_remote default_market Get_overview
      "[PNone]" "[]" 1 "''USD''"]
  by (simp add: sig_defs param_names_def)

text \<open>
  C3. The claim: with the default \<^verbatim>\<open>type_conversion\<close>, a batch that holds an item
  unknown to the remote side returns a mapping with every name, the unknown one mapped
  to \<^verbatim>\<open>None\<close>, and raises nothing. In the code the request for the unknown item
  returns \<^verbatim>\<open>None\<close> (it is made with \<^verbatim>\<open>raise_exception=False\<close>), and the converter then calls
  \<^verbatim>\<open>None.items()\<close>: both batch operations raise \<^verbatim>\<open>AttributeError\<close>. Only with
  \<^verbatim>\<open>type_conversion=False\<close> is the mapping of the claim returned.
\<close>

theorem batch_with_unknown_item_raises:
  "get_overviews one_item_remote default_market
      [PInt 730, PList [PStr ''known'', PStr ''unknown'']] [] = Inl AttributeError \<and>
   get_overviews_from_dict one_item_remote default_market
      [PDict [(PInt 730, PList [PStr ''known'', PStr ''unknown''])]] [] = Inl AttributeError \<and>
   overview_type_converter PNone None = Inl AttributeError \<and>
   get_overviews one_item_remote default_market
      [PInt 730, PList [PStr ''known'', PStr ''unknown''], PBool False] [] =
     Inr (PDict [(PStr ''known'', PDict known_overview), (PStr ''unknown'', PNone)]) \<and>
   get_overviews one_item_remote default_market [PInt 730, PList [PStr ''known'']] [] =
     Inr (PDict [(PStr ''known'',
        PDict [(PStr ''success'', PBool True), (PStr ''lowest_price'', PFloat (binary64 (123456 / 100))),
          (PStr ''volume'', PInt 1024), (PStr ''median_price'', PFloat 1200)])])"
  by (simp add: get_overviews_def get_overviews_from_dict_def decorator_defs sig_defs
      sanitize_app_id_value_def sanitize_market_hash_names_value_def
      sanitize_market_hash_name_value_def get_overviews_body_def
      get_overviews_from_dict_body_def batch_item_def one_item_remote_def default_market_def
      overview_value_def overview_type_converter_def known_overview_def py_or_def
      parser_defs int_defs)

text \<open>
  C5. The claim: \<^verbatim>\<open>get_price\<close> with a valid price type returns the value of that field
  when the overview has it. In the code the sanitizer of \<^verbatim>\<open>price_type\<close> turns the string
  into a tuple of one element, and \<^verbatim>\<open>_get_price\<close> looks that tuple up among the keys of
  the overview, which are strings: the field is never found and the result is \<^verbatim>\<open>None\<close>,
  with or without type conversion. \<^verbatim>\<open>get_lowest_price\<close>, which passes the string itself,
  returns the price.
\<close>

theorem get_price_returns_None_for_present_field:
  "map_of known_overview (PStr ''lowest_price'') = Some (PStr ''$1,234.56'') \<and>
   sanitize_value (Language_from_string one_item_remote) (PStr ''lowest_price'') ''price_type''
     = Inr (PTuple [PStr ''lowest_price'']) \<and>
   get_price one_item_remote default_market
     [PInt 730, PStr ''known'', PStr ''lowest_price''] [] = Inr PNone \<and>
   get_price one_item_remote default_market
     [PInt 730, PStr ''known'', PStr ''median_price''] [] = Inr PNone \<and>
   get_price one_item_remote default_market
     [PInt 730, PStr ''known'', PStr ''lowest_price'', PBool False] [] = Inr PNone \<and>
   get_lowest_price one_item_remote default_market [PInt 730, PStr ''known''] []
     = Inr (PFloat (binary64 (123456 / 100)))"
  by (simp add: get_price_def get_lowest_price_def decorator_defs sig_defs
      sanitize_app_id_value_def sanitize_market_hash_name_value_def
      sanitize_price_type_value_def valid_price_types_def get_price_body_def
      get_lowest_price_body_def get_price_impl_def one_item_remote_def default_market_def
      known_overview_def py_or_def parser_defs)

text \<open>
  C7. A string without any digit makes the parser return \<^verbatim>\<open>None\<close>, and nothing is
  raised. The facade hands that absence on: the converter of an overview keeps the
  entry with the value \<^verbatim>\<open>None\<close>, and \<^verbatim>\<open>get_lowest_price\<close> returns \<^verbatim>\<open>None\<close> when the remote
  side answers with such a string.
\<close>

theorem price_without_digit_is_absent:
  "list_all (\<lambda>c. \<not> is_digit c) s \<longrightarrow>
     price_to_float s = None \<and>
     Market_price_to_float (PStr s) = Inr PNone \<and>
     overview_type_converter (PDict [(PStr ''lowest_price'', PStr s)]) None =
       Inr (PDict [(PStr ''lowest_price'', PNone)]) \<and>
     (request_overview ext (PInt a) (PStr (str_replace (CHR ''/'') ''-'' n))
          (self_currency self) True = Inr (Some item) \<and>
      map_of item (PStr ''lowest_price'') = Some (PStr s) \<longrightarrow>
        get_lowest_price ext self [PInt a, PStr n] [] = Inr PNone)"
proof
  assume s: "list_all (\<lambda>c. \<not> is_digit c) s"
  then have a: "price_to_float s = None"
    by (simp add: price_to_float_def price_decimal_string_def re_search_no_digit)
  then have b: "Market_price_to_float (PStr s) = Inr PNone"
    by (simp add: Market_price_to_float_def)
  then have c: "overview_type_converter (PDict [(PStr ''lowest_price'', PStr s)]) None =
       Inr (PDict [(PStr ''lowest_price'', PNone)])"
    by (simp add: overview_type_converter_def)
  have d: "get_lowest_price ext self [PInt a, PStr n] [] = Inr PNone"
    if "request_overview ext (PInt a) (PStr (str_replace (CHR ''/'') ''-'' n))
          (self_currency self) True = Inr (Some item)"
      and "map_of item (PStr ''lowest_price'') = Some (PStr s)"
    using that b
    by (simp add: get_lowest_price_positional get_lowest_price_body_def get_price_impl_def
        py_or_None py_or_same)
  from a b c d show "price_to_float s = None \<and>
     Market_price_to_float (PStr s) = Inr PNone \<and>
     overview_type_converter (PDict [(PStr ''lowest_price'', PStr s)]) None =
       Inr (PDict [(PStr ''lowest_price'', PNone)]) \<and>
     (request_overview ext (PInt a) (PStr (str_replace (CHR ''/'') ''-'' n))
          (self_currency self) True = Inr (Some item) \<and>
      map_of item (PStr ''lowest_price'') = Some (PStr s) \<longrightarrow>
        get_lowest_price ext self [PInt a, PStr n] [] = Inr PNone)"
    by blast
qed

theorem price_without_digit_is_absent_witness:
  "list_all (\<lambda>c. \<not> is_digit c) ''N/A'' \<and> price_to_float ''N/A'' = None \<and>
   list_all (\<lambda>c. \<not> is_digit c) [] \<and> price_to_float [] = None \<and>
   Market_price_to_float (PStr ''N/A'') = Inr PNone \<and>
   get_lowest_price unpriced_remote default_market [PInt 730, PStr ''item''] [] = Inr PNone"
proof -
  have a: "list_all (\<lambda>c. \<not> is_digit c) ''N/A''" "list_all (\<lambda>c. \<not> is_digit c) []"
    by (simp_all add: is_digit_def)
  have b: "request_overview unpriced_remote (PInt 730)
      (PStr (str_replace (CHR ''/'') ''-'' ''item'')) (self_currency default_market) True =
        Inr (Some [(PStr ''success'', PBool True), (PStr ''lowest_price'', PStr ''N/A'')])"
    by (simp add: unpriced_remote_def)
  have c: "map_of [(PStr ''success'', PBool True), (PStr ''lowest_price'', PStr ''N/A'')]
      (PStr ''lowest_price'') = Some (PStr ''N/A'')"
    by simp
  show ?thesis
    using a b c
      price_without_digit_is_absent[of "''N/A''" unpriced_remote 730 "''item''" default_market
        "[(PStr ''success'', PBool True), (PStr ''lowest_price'', PStr ''N/A'')]"]
      price_without_digit_is_absent[of "[]" unpriced_remote 730 "''item''" default_market "[]"]
    by blast
qed

text \<open>
  What the sanitizing wrapper does for the two name parameters. In every call of a
  public operation that passes validation and sanitization, the body runs on the
  sanitized arguments, and every argument given for the parameter \<^verbatim>\<open>market_hash_name\<close>,
  positionally or by keyword, is a string that reaches the body with each \<^verbatim>\<open>/\<close> replaced
  by \<^verbatim>\<open>-\<close>; every argument given for \<^verbatim>\<open>market_hash_names\<close> reaches it as the list of its
  elements, each so replaced.
\<close>

lemma item_names_reach_the_body_sanitized:
  assumes tc: "typecheck_args (annotations (signature_of op)) (param_names (signature_of op)) args
      = Inr ()"
    and tk: "typecheck_kwargs (annotations (signature_of op)) kwargs = Inr ()"
    and sa: "sanitize_args (Language_from_string ext) (param_names (signature_of op)) args
      = Inr args'"
    and sk: "sanitize_kwargs (Language_from_string ext) kwargs = Inr kwargs'"
  shows "facade ext self op args kwargs =
       call_function (signature_of op) (body_of ext self op) args' kwargs' \<and>
     (\<forall>i<length args. param_names (signature_of op) ! i = ''market_hash_name'' \<longrightarrow>
        (\<exists>n. args ! i = PStr n \<and> args' ! i = PStr (str_replace (CHR ''/'') ''-'' n))) \<and>
     (\<forall>i<length args. param_names (signature_of op) ! i = ''market_hash_names'' \<longrightarrow>
        (\<exists>ns. py_iter (args ! i) = Inr (map PStr ns) \<and>
           args' ! i = PList (map (\<lambda>n. PStr (str_replace (CHR ''/'') ''-'' n)) ns))) \<and>
     (\<forall>i<length kwargs. fst (kwargs ! i) = ''market_hash_name'' \<longrightarrow>
        (\<exists>n. snd (kwargs ! i) = PStr n \<and>
           kwargs' ! i = (''market_hash_name'', PStr (str_replace (CHR ''/'') ''-'' n)))) \<and>
     (\<forall>i<length kwargs. fst (kwargs ! i) = ''market_hash_names'' \<longrightarrow>
        (\<exists>ns. py_iter (snd (kwargs ! i)) = Inr (map PStr ns) \<and>
           kwargs' ! i = (''market_hash_names'',
             PList (map (\<lambda>n. PStr (str_replace (CHR ''/'') ''-'' n)) ns)))) \<and>
     CHR ''/'' \<notin> set (str_replace (CHR ''/'') ''-'' m) \<and>
     str_replace (CHR ''/'') ''-'' m = map (\<lambda>c. if c = CHR ''/'' then CHR ''-'' else c) m"
proof -
  let ?lang = "Language_from_string ext"
  let ?names = "param_names (signature_of op)"
  have call: "facade ext self op args kwargs =
       call_function (signature_of op) (body_of ext self op) args' kwargs'"
    unfolding facade_pipeline sanitized_def tc tk sa sk by simp
  have pos1: "\<forall>i<length args. ?names ! i = ''market_hash_name'' \<longrightarrow>
      (\<exists>n. args ! i = PStr n \<and> args' ! i = PStr (str_replace (CHR ''/'') ''-'' n))"
  proof (intro allI impI)
    fix i assume i: "i < length args" and p: "?names ! i = ''market_hash_name''"
    from sanitize_args_nth[OF sa i] p name_parameters_are_sanitized(1)[of ?lang]
    have "sanitize_value ?lang (args ! i) ''market_hash_name'' = Inr (args' ! i)"
      by simp
    then show "\<exists>n. args ! i = PStr n \<and> args' ! i = PStr (str_replace (CHR ''/'') ''-'' n)"
      by (rule sanitize_value_name)
  qed
  have pos2: "\<forall>i<length args. ?names ! i = ''market_hash_names'' \<longrightarrow>
      (\<exists>ns. py_iter (args ! i) = Inr (map PStr ns) \<and>
         args' ! i = PList (map (\<lambda>n. PStr (str_replace (CHR ''/'') ''-'' n)) ns))"
  proof (intro allI impI)
    fix i assume i: "i < length args" and p: "?names ! i = ''market_hash_names''"
    from sanitize_args_nth[OF sa i] p name_parameters_are_sanitized(2)[of ?lang]
    have "sanitize_value ?lang (args ! i) ''market_hash_names'' = Inr (args' ! i)"
      by simp
    then show "\<exists>ns. py_iter (args ! i) = Inr (map PStr ns) \<and>
         args' ! i = PList (map (\<lambda>n. PStr (str_replace (CHR ''/'') ''-'' n)) ns)"
      by (rule sanitize_value_names)
  qed
  have kw1: "\<forall>i<length kwargs. fst (kwargs ! i) = ''market_hash_name'' \<longrightarrow>
      (\<exists>n. snd (kwargs ! i) = PStr n \<and>
         kwargs' ! i = (''market_hash_name'', PStr (str_replace (CHR ''/'') ''-'' n)))"
  proof (intro allI impI)
    fix i assume i: "i < length kwargs" and p: "fst (kwargs ! i) = ''market_hash_name''"
    from sanitize_kwargs_nth[OF sk i] p name_parameters_are_sanitized(1)[of ?lang]
    have f: "fst (kwargs' ! i) = ''market_hash_name''"
      and v: "sanitize_value ?lang (snd (kwargs ! i)) ''market_hash_name'' = Inr (snd (kwargs' ! i))"
      by simp_all
    from sanitize_value_name[OF v] obtain n where
      n: "snd (kwargs ! i) = PStr n"
        "snd (kwargs' ! i) = PStr (str_replace (CHR ''/'') ''-'' n)"
      by blast
    from f n(2) have "kwargs' ! i = (''market_hash_name'', PStr (str_replace (CHR ''/'') ''-'' n))"
      by (cases "kwargs' ! i") simp
    with n(1) show "\<exists>n. snd (kwargs ! i) = PStr n \<and>
         kwargs' ! i = (''market_hash_name'', PStr (str_replace (CHR ''/'') ''-'' n))"
      by (intro exI conjI)
  qed
  have kw2: "\<forall>i<length kwargs. fst (kwargs ! i) = ''market_hash_names'' \<longrightarrow>
      (\<exists>ns. py_iter (snd (kwargs ! i)) = Inr (map PStr ns) \<and>
         kwargs' ! i = (''market_hash_names'',
           PList (map (\<lambda>n. PStr (str_replace (CHR ''/'') ''-'' n)) ns)))"
  proof (intro allI impI)
    fix i assume i: "i < length kwargs" and p: "fst (kwargs ! i) = ''market_hash_names''"
    from sanitize_kwargs_nth[OF sk i] p name_parameters_are_sanitized(2)[of ?lang]
    have f: "fst (kwargs' ! i) = ''market_hash_names''"
      and v: "sanitize_value ?lang (snd (kwargs ! i)) ''market_hash_names'' = Inr (snd (kwargs' ! i))"
      by simp_all
    from sanitize_value_names[OF v] obtain ns where
      n: "py_iter (snd (kwargs ! i)) = Inr (map PStr ns)"
        "snd (kwargs' ! i) = PList (map (\<lambda>n. PStr (str_replace (CHR ''/'') ''-'' n)) ns)"
      by blast
    from f n(2) have "kwargs' ! i = (''market_hash_names'',
        PList (map (\<lambda>n. PStr (str_replace (CHR ''/'') ''-'' n)) ns))"
      by (cases "kwargs' ! i") simp
    with n(1) show "\<exists>ns. py_iter (snd (kwargs ! i)) = Inr (map PStr ns) \<and>
         kwargs' ! i = (''market_hash_names'',
           PList (map (\<lambda>n. PStr (str_replace (CHR ''/'') ''-'' n)) ns))"
      by (intro exI conjI)
  qed
  from call pos1 pos2 kw1 kw2 str_replace_slash(1)[of m] str_replace_slash(2)[of m]
  show ?thesis by (intro conjI)
qed

text \<open>
  C9. The claim: every item name given to a public operation has each \<^verbatim>\<open>/\<close> replaced by
  \<^verbatim>\<open>-\<close> before it is used in a request, also the names inside the dictionary of
  \<^verbatim>\<open>get_overviews_from_dict\<close>. For a single name and for a list of names the code does
  so: the name of the specification, given positionally or by keyword, is requested with
  the hyphen, and the list form requests \<^verbatim>\<open>A-B\<close> for \<^verbatim>\<open>A/B\<close>. The dictionary form does not:
  its parameter is called \<^verbatim>\<open>items_dict\<close>, which is no key of the table of sanitizers (the
  table has \<^verbatim>\<open>market_items_dict\<close>, a name no method uses, and the function registered
  there would leave the names as they are), so the body requests \<^verbatim>\<open>A/B\<close> and stores the
  overview under \<^verbatim>\<open>A/B\<close>.
\<close>

theorem get_overviews_from_dict_requests_unsanitized_name:
  "''items_dict'' \<notin> set (sanitize_param_names (Language_from_string echo_remote)) \<and>
   sanitize_market_items_dict (PDict [(PInt 730, PList [PStr ''A/B''])]) =
     Inr (PDict [(PInt 730, PList [PStr ''A/B''])]) \<and>
   get_overviews_from_dict echo_remote default_market
      [PDict [(PInt 730, PList [PStr ''A/B''])]] [] =
     Inr (PDict [(PStr ''A/B'',
        PDict [(PStr ''requested'', PStr ''A/B''), (PStr ''currency'', PCurrency USD)])]) \<and>
   get_overviews echo_remote default_market [PInt 730, PList [PStr ''A/B'']] [] =
     Inr (PDict [(PStr ''A-B'',
        PDict [(PStr ''requested'', PStr ''A-B''), (PStr ''currency'', PCurrency USD)])]) \<and>
   get_overview echo_remote default_market
      [PInt 730, PStr ''AK-47 | Redline (Field-Tested)/Variant''] [] =
     Inr (PDict [(PStr ''requested'', PStr ''AK-47 | Redline (Field-Tested)-Variant''),
                 (PStr ''currency'', PCurrency USD)]) \<and>
   get_overview echo_remote default_market [PInt 730]
      [(''market_hash_name'', PStr ''AK-47 | Redline (Field-Tested)/Variant'')] =
     Inr (PDict [(PStr ''requested'', PStr ''AK-47 | Redline (Field-Tested)-Variant''),
                 (PStr ''currency'', PCurrency USD)])"
proof -
  have a: "''items_dict'' \<notin> set (sanitize_param_names (Language_from_string echo_remote))"
    by (simp add: sanitize_param_names_def SANITIZE_FUNCS_def)
  have s: "sanitize_market_items_dict (PDict [(PInt 730, PList [PStr ''A/B''])]) =
     Inr (PDict [(PInt 730, PList [PStr ''A/B''])])"
    by (simp add: sanitize_market_items_dict_def)
  have b: "get_overviews_from_dict echo_remote default_market
      [PDict [(PInt 730, PList [PStr ''A/B''])]] [] =
     Inr (PDict [(PStr ''A/B'',
        PDict [(PStr ''requested'', PStr ''A/B''), (PStr ''currency'', PCurrency USD)])])"
    by (simp add: get_overviews_from_dict_def decorator_defs sig_defs
        get_overviews_from_dict_body_def batch_item_def echo_remote_def default_market_def
        overview_value_def overview_type_converter_def py_or_def)
  have c: "get_overviews echo_remote default_market [PInt 730, PList [PStr ''A/B'']] [] =
     Inr (PDict [(PStr ''A-B'',
        PDict [(PStr ''requested'', PStr ''A-B''), (PStr ''currency'', PCurrency USD)])])"
    by (simp add: get_overviews_def decorator_defs sig_defs sanitize_app_id_value_def
        sanitize_market_hash_names_value_def sanitize_market_hash_name_value_def str_replace_def
        get_overviews_body_def batch_item_def echo_remote_def default_market_def
        overview_value_def overview_type_converter_def py_or_def)
  have r: "str_replace (CHR ''/'') ''-'' ''AK-47 | Redline (Field-Tested)/Variant'' =
      ''AK-47 | Redline (Field-Tested)-Variant''"
    by (simp add: str_replace_def)
  have d: "get_overview echo_remote default_market
      [PInt 730, PStr ''AK-47 | Redline (Field-Tested)/Variant''] [] =
     Inr (PDict [(PStr ''requested'', PStr ''AK-47 | Redline (Field-Tested)-Variant''),
                 (PStr ''currency'', PCurrency USD)])"
    unfolding get_overview_positional r
    by (simp add: get_overview_body_def echo_remote_def default_market_def py_or_def
        overview_value_def overview_type_converter_def)
  have e: "get_overview echo_remote default_market [PInt 730]
      [(''market_hash_name'', PStr ''AK-47 | Redline (Field-Tested)/Variant'')] =
     Inr (PDict [(PStr ''requested'', PStr ''AK-47 | Redline (Field-Tested)-Variant''),
                 (PStr ''currency'', PCurrency USD)])"
    by (simp add: get_overview_def decorator_defs sig_defs sanitize_app_id_int sanitize_name r
        get_overview_body_def echo_remote_def default_market_def py_or_def
        overview_value_def overview_type_converter_def)
  from a s b c d e show ?thesis by (intro conjI)
qed

text \<open>
  C10. For every operation with the parameter \<^verbatim>\<open>currency\<close> (all but \<^verbatim>\<open>get_volume\<close>),
  a call that passes \<^verbatim>\<open>None\<close> for it, by keyword or positionally, raises \<^verbatim>\<open>TypeError\<close> in
  the type validator as soon as the arguments before it have passed: \<^verbatim>\<open>None\<close> matches no
  branch of the union. A call that gives the required arguments and leaves \<^verbatim>\<open>currency\<close> out
  passes validation, and every request that the operation then makes of the remote side
  is made with the currency of the instance: the one request of \<^verbatim>\<open>get_overview\<close>,
  \<^verbatim>\<open>get_prices\<close>, \<^verbatim>\<open>get_lowest_price\<close>, \<^verbatim>\<open>get_median_price\<close> and \<^verbatim>\<open>get_price\<close>, and the request
  for each name of the two batch operations.
\<close>

theorem currency_None_raises_and_omitted_uses_default:
  "(op \<noteq> Get_volume \<and>
    typecheck_args (annotations (signature_of op)) (param_names (signature_of op)) args = Inr () \<and>
    typecheck_kwargs (annotations (signature_of op)) kw1 = Inr () \<longrightarrow>
      facade ext self op args (kw1 @ (''currency'', PNone) # kw2) = Inl TypeError) \<and>
   (op \<noteq> Get_volume \<and>
    typecheck_args (annotations (signature_of op)) (param_names (signature_of op)) pre = Inr () \<and>
    length pre < length (param_names (signature_of op)) \<and>
    param_names (signature_of op) ! length pre = ''currency'' \<longrightarrow>
      facade ext self op (pre @ PNone # post) kwargs = Inl TypeError) \<and>
   typecheck_value PNone currency_type = Inr False \<and>
   get_overview ext self [PInt a, PStr n] [] =
     (case request_overview ext (PInt a) (PStr (str_replace (CHR ''/'') ''-'' n))
             (self_currency self) True of
        Inl e \<Rightarrow> Inl e
      | Inr data \<Rightarrow> overview_type_converter (overview_value data) None) \<and>
   get_overviews ext self [PInt a, PList (map PStr ns)] [] =
     map_sum id PDict
       (requested_batch ext (self_currency self) (PInt a) []
          (map (\<lambda>n. PStr (str_replace (CHR ''/'') ''-'' n)) ns)) \<and>
   get_overviews_from_dict ext self
       [PDict (map (\<lambda>(a, ns). (PInt a, PList (map PStr ns))) groups)] [] =
     map_sum id PDict
       (requested_groups ext (self_currency self) []
          (map (\<lambda>(a, ns). (PInt a, map PStr ns)) groups)) \<and>
   get_prices ext self [PInt a, PStr n] [] =
     (case request_overview ext (PInt a) (PStr (str_replace (CHR ''/'') ''-'' n))
             (self_currency self) True of
        Inl e \<Rightarrow> Inl e
      | Inr None \<Rightarrow> Inr PNone
      | Inr (Some item) \<Rightarrow>
          get_prices_loop item (PBool True) [] [PStr ''lowest_price'', PStr ''median_price'']) \<and>
   get_lowest_price ext self [PInt a, PStr n] [] =
     (case request_overview ext (PInt a) (PStr (str_replace (CHR ''/'') ''-'' n))
             (self_currency self) True of
        Inl e \<Rightarrow> Inl e
      | Inr None \<Rightarrow> Inr PNone
      | Inr (Some item) \<Rightarrow>
          (case map_of item (PStr ''lowest_price'') of
             None \<Rightarrow> Inr PNone
           | Some v \<Rightarrow> Market_price_to_float v)) \<and>
   get_median_price ext self [PInt a, PStr n] [] =
     (case request_overview ext (PInt a) (PStr (str_replace (CHR ''/'') ''-'' n))
             (self_currency self) True of
        Inl e \<Rightarrow> Inl e
      | Inr None \<Rightarrow> Inr PNone
      | Inr (Some item) \<Rightarrow>
          (case map_of item (PStr ''median_price'') of
             None \<Rightarrow> Inr PNone
           | Some v \<Rightarrow> Market_price_to_float v)) \<and>
   (PStr p \<in> set valid_price_types \<longrightarrow>
      get_price ext self [PInt a, PStr n, PStr p] [] =
        (case request_overview ext (PInt a) (PStr (str_replace (CHR ''/'') ''-'' n))
                (self_currency self) True of
           Inl e \<Rightarrow> Inl e
         | Inr None \<Rightarrow> Inr PNone
         | Inr (Some item) \<Rightarrow>
             (case map_of item (PTuple [PStr p]) of
                None \<Rightarrow> Inr PNone
              | Some v \<Rightarrow> Market_price_to_float v)))"
proof -
  have k: "op \<noteq> Get_volume \<and>
    typecheck_args (annotations (signature_of op)) (param_names (signature_of op)) args = Inr () \<and>
    typecheck_kwargs (annotations (signature_of op)) kw1 = Inr () \<longrightarrow>
      facade ext self op args (kw1 @ (''currency'', PNone) # kw2) = Inl TypeError"
    by (intro impI currency_None_keyword) simp_all
  have q: "op \<noteq> Get_volume \<and>
    typecheck_args (annotations (signature_of op)) (param_names (signature_of op)) pre = Inr () \<and>
    length pre < length (param_names (signature_of op)) \<and>
    param_names (signature_of op) ! length pre = ''currency'' \<longrightarrow>
      facade ext self op (pre @ PNone # post) kwargs = Inl TypeError"
    by (intro impI currency_None_positional) simp_all
  have o1: "get_overview ext self [PInt a, PStr n] [] =
     (case request_overview ext (PInt a) (PStr (str_replace (CHR ''/'') ''-'' n))
             (self_currency self) True of
        Inl e \<Rightarrow> Inl e
      | Inr data \<Rightarrow> overview_type_converter (overview_value data) None)"
    by (simp add: get_overview_positional get_overview_body_def py_or_None split: sum.splits)
  have o2: "get_overviews ext self [PInt a, PList (map PStr ns)] [] =
     map_sum id PDict
       (requested_batch ext (self_currency self) (PInt a) []
          (map (\<lambda>n. PStr (str_replace (CHR ''/'') ''-'' n)) ns))"
    by (simp only: get_overviews_positional get_overviews_body_requested)
  have o3: "get_overviews_from_dict ext self
       [PDict (map (\<lambda>(a, ns). (PInt a, PList (map PStr ns))) groups)] [] =
     map_sum id PDict
       (requested_groups ext (self_currency self) []
          (map (\<lambda>(a, ns). (PInt a, map PStr ns)) groups))"
    by (rule get_overviews_from_dict_requested)
  have o4: "get_prices ext self [PInt a, PStr n] [] =
     (case request_overview ext (PInt a) (PStr (str_replace (CHR ''/'') ''-'' n))
             (self_currency self) True of
        Inl e \<Rightarrow> Inl e
      | Inr None \<Rightarrow> Inr PNone
      | Inr (Some item) \<Rightarrow>
          get_prices_loop item (PBool True) [] [PStr ''lowest_price'', PStr ''median_price''])"
    by (simp only: get_prices_positional get_prices_body_def py_or_None)
  have o5: "get_lowest_price ext self [PInt a, PStr n] [] =
     (case request_overview ext (PInt a) (PStr (str_replace (CHR ''/'') ''-'' n))
             (self_currency self) True of
        Inl e \<Rightarrow> Inl e
      | Inr None \<Rightarrow> Inr PNone
      | Inr (Some item) \<Rightarrow>
          (case map_of item (PStr ''lowest_price'') of
             None \<Rightarrow> Inr PNone
           | Some v \<Rightarrow> Market_price_to_float v))"
    by (simp add: get_lowest_price_positional get_lowest_price_body_def get_price_impl_def
        py_or_None py_or_same split: sum.splits option.splits)
  have o6: "get_median_price ext self [PInt a, PStr n] [] =
     (case request_overview ext (PInt a) (PStr (str_replace (CHR ''/'') ''-'' n))
             (self_currency self) True of
        Inl e \<Rightarrow> Inl e
      | Inr None \<Rightarrow> Inr PNone
      | Inr (Some item) \<Rightarrow>
          (case map_of item (PStr ''median_price'') of
             None \<Rightarrow> Inr PNone
           | Some v \<Rightarrow> Market_price_to_float v))"
    by (simp add: get_median_price_positional get_median_price_body_def get_price_impl_def
        py_or_None py_or_same split: sum.splits option.splits)
  have o7: "PStr p \<in> set valid_price_types \<longrightarrow>
      get_price ext self [PInt a, PStr n, PStr p] [] =
        (case request_overview ext (PInt a) (PStr (str_replace (CHR ''/'') ''-'' n))
                (self_currency self) True of
           Inl e \<Rightarrow> Inl e
         | Inr None \<Rightarrow> Inr PNone
         | Inr (Some item) \<Rightarrow>
             (case map_of item (PTuple [PStr p]) of
                None \<Rightarrow> Inr PNone
              | Some v \<Rightarrow> Market_price_to_float v))"
    by (simp add: get_price_positional get_price_body_def get_price_impl_def
        py_or_None split: sum.splits option.splits)
  from k q typecheck_currency_None o1 o2 o3 o4 o5 o6 o7
  show ?thesis by (intro conjI)
qed

text \<open>
  Calls on a remote side that answers with the currency it was asked for: \<^verbatim>\<open>None\<close> by
  keyword and by position, and calls that leave the currency out, on an instance whose
  currency is the dollar.
\<close>

theorem currency_None_raises_and_omitted_uses_default_witness:
  "facade echo_remote default_market Get_overview [PInt 730, PStr ''known'']
      [(''type_conversion'', PBool False), (''currency'', PNone)] = Inl TypeError \<and>
   facade echo_remote default_market Get_overview
      [PInt 730, PStr ''known'', PBool False, PNone] [] = Inl TypeError \<and>
   self_currency default_market = PCurrency USD \<and>
   get_overview echo_remote default_market [PInt 730, PStr ''known''] [] =
     Inr (PDict [(PStr ''requested'', PStr ''known''), (PStr ''currency'', PCurrency USD)]) \<and>
   get_overviews echo_remote default_market [PInt 730, PList [PStr ''known'']] [] =
     Inr (PDict [(PStr ''known'',
        PDict [(PStr ''requested'', PStr ''known''), (PStr ''currency'', PCurrency USD)])]) \<and>
   get_overviews_from_dict echo_remote default_market
      [PDict [(PInt 730, PList [PStr ''known''])]] [] =
     Inr (PDict [(PStr ''known'',
        PDict [(PStr ''requested'', PStr ''known''), (PStr ''currency'', PCurrency USD)])]) \<and>
   PStr ''lowest_price'' \<in> set valid_price_types \<and>
   get_price echo_remote default_market
      [PInt 730, PStr ''known'', PStr ''lowest_price''] [] = Inr PNone"
proof -
  note t = currency_None_raises_and_omitted_uses_default[where op = Get_overview
      and args = "[PInt 730, PStr ''known'']" and ?kw1.0 = "[(''type_conversion'', PBool False)]"
      and ext = echo_remote and self = default_market and ?kw2.0 = "[]"
      and pre = "[PInt 730, PStr ''known'', PBool False]" and post = "[]" and kwargs = "[]"
      and a = 730 and n = "''known''" and ns = "[''known'']"
      and groups = "[(730, [''known''])]" and p = "''lowest_price''"]
  have a: "Get_overview \<noteq> Get_volume"
    by simp
  have b: "typecheck_args (annotations (signature_of Get_overview))
      (param_names (signature_of Get_overview)) [PInt 730, PStr ''known''] = Inr ()"
    by (simp add: sig_defs param_names_def)
  have c: "typecheck_kwargs (annotations (signature_of Get_overview))
      [(''type_conversion'', PBool False)] = Inr ()"
    by (simp add: sig_defs)
  have d: "typecheck_args (annotations (signature_of Get_overview))
      (param_names (signature_of Get_overview)) [PInt 730, PStr ''known'', PBool False] = Inr ()"
    by (simp add: sig_defs param_names_def)
  have e: "length [PInt 730, PStr ''known'', PBool False]
      < length (param_names (signature_of Get_overview))"
    "param_names (signature_of Get_overview) ! length [PInt 730, PStr ''known'', PBool False]
      = ''currency''"
    by (simp_all add: sig_defs param_names_def)
  have g: "PStr ''lowest_price'' \<in> set valid_price_types"
    by (simp add: valid_price_types_def)
  have r: "str_replace (CHR ''/'') ''-'' ''known'' = ''known''"
    by (simp add: str_replace_def)
  have s: "self_currency default_market = PCurrency USD"
    by (simp add: default_market_def)
  have w1: "facade echo_remote default_market Get_overview [PInt 730, PStr ''known'']
      [(''type_conversion'', PBool False), (''currency'', PNone)] = Inl TypeError"
    using t[THEN conjunct1] a b c by simp
  have w2: "facade echo_remote default_market Get_overview
      [PInt 730, PStr ''known'', PBool False, PNone] [] = Inl TypeError"
    using t[THEN conjunct2, THEN conjunct1] a d e by simp
  have w3: "get_overview echo_remote default_market [PInt 730, PStr ''known''] [] =
     Inr (PDict [(PStr ''requested'', PStr ''known''), (PStr ''currency'', PCurrency USD)])"
    unfolding t[THEN conjunct2, THEN conjunct2, THEN conjunct2, THEN conjunct1] r s
    by (simp add: echo_remote_def overview_value_def overview_type_converter_def)
  have w4: "get_overviews echo_remote default_market [PInt 730, PList [PStr ''known'']] [] =
     Inr (PDict [(PStr ''known'',
        PDict [(PStr ''requested'', PStr ''known''), (PStr ''currency'', PCurrency USD)])])"
    using t[THEN conjunct2, THEN conjunct2, THEN conjunct2, THEN conjunct2, THEN conjunct1]
    by (simp add: r s echo_remote_def overview_value_def overview_type_converter_def)
  have w5: "get_overviews_from_dict echo_remote default_market
      [PDict [(PInt 730, PList [PStr ''known''])]] [] =
     Inr (PDict [(PStr ''known'',
        PDict [(PStr ''requested'', PStr ''known''), (PStr ''currency'', PCurrency USD)])])"
    using t[THEN conjunct2, THEN conjunct2, THEN conjunct2, THEN conjunct2, THEN conjunct2,
        THEN conjunct1]
    by (simp add: s echo_remote_def overview_value_def overview_type_converter_def)
  have w6: "get_price echo_remote default_market
      [PInt 730, PStr ''known'', PStr ''lowest_price''] [] = Inr PNone"
    using t[THEN conjunct2, THEN conjunct2, THEN conjunct2, THEN conjunct2, THEN conjunct2,
        THEN conjunct2, THEN conjunct2, THEN conjunct2, THEN conjunct2] g
    by (simp add: r s echo_remote_def)
  from w1 w2 s w3 w4 w5 g w6 show ?thesis by (intro conjI)
qed

end
